theory Spec2Isabelle
  imports Complex_Main "HOL-Library.Sublist"
begin

section \<open>JavaScript strings\<close>

text \<open>
  A JavaScript string is modelled as a \<^typ>\<open>string\<close> whose characters are the code units
  \<open>0x00..0xFF\<close> (ASCII and Latin-1). \<open>String.prototype.toLowerCase\<close> changes exactly the
  upper-case letters of that range: \<open>A..Z\<close> and \<open>0xC0..0xDE\<close> without \<open>0xD7\<close>.
\<close>

definition case_table :: "(char \<times> char) list" where
  "case_table = zip ''ABCDEFGHIJKLMNOPQRSTUVWXYZ'' ''abcdefghijklmnopqrstuvwxyz'' @
     zip [CHR 0xC0, CHR 0xC1, CHR 0xC2, CHR 0xC3, CHR 0xC4, CHR 0xC5, CHR 0xC6, CHR 0xC7,
          CHR 0xC8, CHR 0xC9, CHR 0xCA, CHR 0xCB, CHR 0xCC, CHR 0xCD, CHR 0xCE, CHR 0xCF,
          CHR 0xD0, CHR 0xD1, CHR 0xD2, CHR 0xD3, CHR 0xD4, CHR 0xD5, CHR 0xD6,
          CHR 0xD8, CHR 0xD9, CHR 0xDA, CHR 0xDB, CHR 0xDC, CHR 0xDD, CHR 0xDE]
         [CHR 0xE0, CHR 0xE1, CHR 0xE2, CHR 0xE3, CHR 0xE4, CHR 0xE5, CHR 0xE6, CHR 0xE7,
          CHR 0xE8, CHR 0xE9, CHR 0xEA, CHR 0xEB, CHR 0xEC, CHR 0xED, CHR 0xEE, CHR 0xEF,
          CHR 0xF0, CHR 0xF1, CHR 0xF2, CHR 0xF3, CHR 0xF4, CHR 0xF5, CHR 0xF6,
          CHR 0xF8, CHR 0xF9, CHR 0xFA, CHR 0xFB, CHR 0xFC, CHR 0xFD, CHR 0xFE]"

definition is_upper :: "char \<Rightarrow> bool" where
  "is_upper c = (let n = (of_char c :: nat)
     in (65 \<le> n \<and> n \<le> 90) \<or> (192 \<le> n \<and> n \<le> 222 \<and> n \<noteq> 215))"

definition toLowerCase_char :: "char \<Rightarrow> char" where
  "toLowerCase_char c =
     (if is_upper c then (case map_of case_table c of Some d \<Rightarrow> d | None \<Rightarrow> c) else c)"

definition toLowerCase :: "string \<Rightarrow> string" where
  "toLowerCase s = map toLowerCase_char s"

text \<open>\<open>s.startsWith(t)\<close> and \<open>s.includes(t)\<close>: \<open>t\<close> is a prefix, a contiguous substring of \<open>s\<close>.\<close>

fun startsWith :: "string \<Rightarrow> string \<Rightarrow> bool" where
  "startsWith s [] = True"
| "startsWith [] (c # t) = False"
| "startsWith (d # s) (c # t) = (d = c \<and> startsWith s t)"

fun str_includes :: "string \<Rightarrow> string \<Rightarrow> bool" where
  "str_includes [] t = (t = [])"
| "str_includes (c # s) t = (startsWith (c # s) t \<or> str_includes s t)"


text \<open>A thrown JavaScript \<open>Error\<close>, with its message.\<close>

datatype error = Error string

section \<open>Proxy username (\<open>BrowserManager.launchBrowser\<close>)\<close>

text \<open>The \<open>proxy\<close> section of the configuration module; every entry is a string read from the
  environment, with \<open>''\<close> as its default.\<close>

record proxy_config =
  enabled :: bool
  decodServer :: string
  username :: string
  password :: string
  country :: string
  state :: string
  city :: string

text \<open>\<open>/^[a-z]{2}\.decodo\.com/i.test(server)\<close>: two ASCII letters of either case, then
  \<open>.decodo.com\<close> in any case; the pattern is anchored at the start only.\<close>

definition is_ascii_letter :: "char \<Rightarrow> bool" where
  "is_ascii_letter c = (let n = (of_char c :: nat)
     in (65 \<le> n \<and> n \<le> 90) \<or> (97 \<le> n \<and> n \<le> 122))"

definition isSubdomainRouting :: "string \<Rightarrow> bool" where
  "isSubdomainRouting server =
     (case server of
        c1 # c2 # rest \<Rightarrow>
          is_ascii_letter c1 \<and> is_ascii_letter c2 \<and> startsWith (toLowerCase rest) ''.decodo.com''
      | _ \<Rightarrow> False)"

text \<open>The three conditional appends to \<open>locationPart\<close>, in the order of the source.\<close>

definition locationPart :: "proxy_config \<Rightarrow> string" where
  "locationPart cfg =
     (let lp0 = [];
          lp1 = (if country cfg \<noteq> [] then lp0 @ ''-country-'' @ country cfg else lp0);
          lp2 = (if state cfg \<noteq> [] then lp1 @ ''-state-'' @ state cfg else lp1);
          lp3 = (if city cfg \<noteq> [] then lp2 @ ''-city-'' @ city cfg else lp2)
      in lp3)"

text \<open>The value of \<open>proxyUsername\<close> after the \<open>if (config.proxy.enabled)\<close> block: \<open>None\<close> is the
  initial \<open>null\<close>.\<close>

definition proxyUsername :: "proxy_config \<Rightarrow> string \<Rightarrow> string option" where
  "proxyUsername cfg accountId =
     (if enabled cfg then
        (if isSubdomainRouting (decodServer cfg) then Some (username cfg)
         else Some (username cfg @ locationPart cfg @ ''-session-'' @ accountId))
      else None)"

text \<open>The host pattern as the specification words it: any host that begins with a two-letter
  subdomain, whatever the provider's domain.\<close>

definition two_letter_subdomain_host :: "string \<Rightarrow> bool" where
  "two_letter_subdomain_host host =
     (case host of
        c1 # c2 # c3 # rest \<Rightarrow> is_ascii_letter c1 \<and> is_ascii_letter c2 \<and> c3 = CHR ''.''
      | _ \<Rightarrow> False)"

text \<open>The suffix as the specification words it: the non-empty parts among country, state and
  city, each with its label, in that order.\<close>

definition location_suffix :: "proxy_config \<Rightarrow> string" where
  "location_suffix cfg =
     concat (map (\<lambda>(label, v). ''-'' @ label @ ''-'' @ v)
       (filter (\<lambda>(label, v). v \<noteq> [])
          [(''country'', country cfg), (''state'', state cfg), (''city'', city cfg)]))"

section \<open>Form field inference (\<open>FormLogic\<close>)\<close>

text \<open>
  The attributes of a DOM element that \<open>inferFieldPurpose\<close> reads. \<open>name\<close>, \<open>id\<close>, \<open>className\<close>,
  \<open>type\<close> and \<open>tagName\<close> are always strings; \<open>placeholder\<close> is \<open>undefined\<close> on a \<open>select\<close>, and
  \<open>getAttribute\<close> returns \<open>null\<close> for an absent attribute: both are \<open>None\<close>.
\<close>

record element =
  el_name :: string
  el_id :: string
  el_placeholder :: "string option"
  el_className :: string
  el_aria_label :: "string option"
  el_autocomplete :: "string option"
  el_type :: string
  el_tagName :: string







text \<open>
  A detected field, as \<open>detectFormFields\<close> builds it, and a value of the form data. The form
  data is a plain object received as JSON: it is modelled by its own entries, in the order of
  \<open>Object.entries\<close>, and \<open>formData[k]\<close> is \<open>undefined\<close> exactly when \<open>k\<close> is not a key
  (properties inherited from \<open>Object.prototype\<close> are outside the model).
\<close>

record field =
  f_tagName :: string
  f_type :: string
  f_name :: string
  f_id :: string
  f_placeholder :: string
  f_required :: bool
  f_value :: string
  f_selector :: string
  f_purpose :: string

text \<open>The values a property of \<open>formData\<close> can have: the JSON values the job carries, and
  \<open>JInherited k\<close>, the member \<open>k\<close> of \<open>Object.prototype\<close> (a function, or the prototype itself
  for \<open>__proto__\<close>) that a plain object answers with when it has no entry of its own.\<close>

datatype jsval = JNull | JBool bool | JStr string | JInherited string

type_synonym formData = "(string \<times> jsval) list"

text \<open>\<open>formData\<close> is the list of the own entries of a plain object, in the order of
  \<open>Object.entries\<close>. The names below are the properties every plain object inherits from
  \<open>Object.prototype\<close>.\<close>

definition object_prototype_names :: "string list" where
  "object_prototype_names =
     [''constructor'', ''__defineGetter__'', ''__defineSetter__'', ''hasOwnProperty'',
      ''__lookupGetter__'', ''__lookupSetter__'', ''isPrototypeOf'', ''propertyIsEnumerable'',
      ''toString'', ''valueOf'', ''__proto__'', ''toLocaleString'']"

text \<open>\<open>formData[k]\<close>: the own entry, else the inherited member, else \<open>undefined\<close> (\<open>None\<close>).\<close>

definition get_property :: "formData \<Rightarrow> string \<Rightarrow> jsval option" where
  "get_property fd k =
     (case map_of fd k of
        Some v \<Rightarrow> Some v
      | None \<Rightarrow> if k \<in> set object_prototype_names then Some (JInherited k) else None)"

text \<open>The \<open>for (const [key, value] of Object.entries(formData))\<close> loop of \<open>getValueForField\<close>;
  falling out of the loop reaches \<open>return null\<close>.\<close>

fun fuzzy_loop :: "string \<Rightarrow> formData \<Rightarrow> jsval" where
  "fuzzy_loop fieldKey [] = JNull"
| "fuzzy_loop fieldKey ((key, v) # es) =
     (if str_includes (toLowerCase fieldKey) (toLowerCase key) then v
      else fuzzy_loop fieldKey es)"

definition getValueForField :: "field \<Rightarrow> formData \<Rightarrow> jsval" where
  "getValueForField fld fd =
     (case (if f_name fld \<noteq> [] then get_property fd (f_name fld) else None) of
        Some v \<Rightarrow> v
      | None \<Rightarrow>
     (case (if f_id fld \<noteq> [] then get_property fd (f_id fld) else None) of
        Some v \<Rightarrow> v
      | None \<Rightarrow>
     (case (if f_purpose fld \<noteq> [] then get_property fd (f_purpose fld) else None) of
        Some v \<Rightarrow> v
      | None \<Rightarrow>
        fuzzy_loop (if f_name fld \<noteq> [] then f_name fld
                    else if f_id fld \<noteq> [] then f_id fld else []) fd)))"

text \<open>The tiers as the specification words them: an exact match is a match against a key of
  \<open>formData\<close>.\<close>

definition exact_match :: "string \<Rightarrow> formData \<Rightarrow> jsval option" where
  "exact_match k fd = (if k = [] then None else map_of fd k)"

definition name_or_id :: "field \<Rightarrow> string" where
  "name_or_id fld = (if f_name fld \<noteq> [] then f_name fld else f_id fld)"

definition fuzzy_match :: "field \<Rightarrow> formData \<Rightarrow> (string \<times> jsval) option" where
  "fuzzy_match fld fd =
     find (\<lambda>(key, v). str_includes (toLowerCase (name_or_id fld)) (toLowerCase key)) fd"

text \<open>A text input with the given name and id, classified as an e-mail field.\<close>

definition text_input :: "string \<Rightarrow> string \<Rightarrow> field" where
  "text_input name ident =
     \<lparr>f_tagName = ''input'', f_type = ''text'', f_name = name, f_id = ident,
      f_placeholder = [], f_required = False, f_value = [], f_selector = ''#f1'',
      f_purpose = ''email''\<rparr>"

section \<open>Submission verification (\<open>FormLogic.verifySubmission\<close>)\<close>

text \<open>
  What the controlling process can read from a page at one moment: \<open>page.url()\<close>,
  \<open>page.content()\<close>, \<open>page.textContent('body')\<close> and \<open>page.locator(sel).count()\<close>. The last three
  are asynchronous calls into the browser and may reject (a closed page, a selector that does
  not parse): \<open>Inl\<close> is the rejection.
\<close>

record page =
  page_url :: string
  page_content :: "error + string"
  page_text :: "error + string"
  page_count :: "string \<Rightarrow> error + nat"

text \<open>The optional hints of a task; a hint that is absent (\<open>undefined\<close>) or empty is \<open>''\<close>, which
  the truthiness tests of the source treat alike.\<close>

record successIndicators =
  successUrl :: string
  successMessage :: string
  successSelector :: string

text \<open>A verification result; \<open>None\<close> is \<open>null\<close> or an absent property.\<close>

record verification =
  v_success :: bool
  v_method :: "string option"
  v_message :: "string option"
  v_url :: "string option"
  v_orderNumber :: "string option"

definition result :: "bool \<Rightarrow> string option \<Rightarrow> string option \<Rightarrow> verification" where
  "result ok meth msg =
     \<lparr>v_success = ok, v_method = meth, v_message = msg, v_url = None, v_orderNumber = None\<rparr>"

definition successKeywords :: "string list" where
  "successKeywords = [''success'', ''thank you'', ''submitted'', ''received'', ''complete'']"

definition errorKeywords :: "string list" where
  "errorKeywords = [''error'', ''invalid'', ''required'', ''failed'', ''incorrect'']"

text \<open>The generic part of the \<open>try\<close> block, after \<open>content\<close> has been read and lower-cased: the
  two keyword loops and the final \<open>Unable to determine\<close>.\<close>

definition generic_detection :: "string \<Rightarrow> verification" where
  "generic_detection content =
     (case find (\<lambda>keyword. str_includes content keyword) successKeywords of
        Some keyword \<Rightarrow> result True (Some ''keyword'') (Some (''Found keyword: '' @ keyword))
      | None \<Rightarrow>
     (case find (\<lambda>keyword. str_includes content keyword) errorKeywords of
        Some keyword \<Rightarrow> result False (Some ''error'') (Some (''Found error keyword: '' @ keyword))
      | None \<Rightarrow> result False None (Some ''Unable to determine submission status'')))"

text \<open>The \<open>try\<close> block: each \<open>await\<close> that rejects leaves it with the error. (The initial
  \<open>sleep(2000)\<close> only delays.)\<close>

definition verifySubmission_try :: "page \<Rightarrow> successIndicators \<Rightarrow> error + verification" where
  "verifySubmission_try pg ind =
     (if successUrl ind \<noteq> [] \<and> str_includes (page_url pg) (successUrl ind)
      then Inr (result True (Some ''url'') (Some (''URL changed to '' @ page_url pg)))
      else
     (case (if successMessage ind \<noteq> []
            then (case page_content pg of
                    Inl e \<Rightarrow> Inl e
                  | Inr content \<Rightarrow> Inr (str_includes content (successMessage ind)))
            else Inr False) of
        Inl e \<Rightarrow> Inl e
      | Inr True \<Rightarrow> Inr (result True (Some ''message'') (Some ''Success message found''))
      | Inr False \<Rightarrow>
     (case (if successSelector ind \<noteq> []
            then (case page_count pg (successSelector ind) of
                    Inl e \<Rightarrow> Inl e
                  | Inr n \<Rightarrow> Inr (n > 0))
            else Inr False) of
        Inl e \<Rightarrow> Inl e
      | Inr True \<Rightarrow> Inr (result True (Some ''element'') (Some ''Success element found''))
      | Inr False \<Rightarrow>
     (case page_content pg of
        Inl e \<Rightarrow> Inl e
      | Inr content \<Rightarrow> Inr (generic_detection (toLowerCase content))))))"

text \<open>The \<open>catch\<close> block turns a rejection into a result with method \<open>error\<close>.\<close>

definition verifySubmission :: "page \<Rightarrow> successIndicators \<Rightarrow> verification" where
  "verifySubmission pg ind =
     (case verifySubmission_try pg ind of
        Inr r \<Rightarrow> r
      | Inl (Error m) \<Rightarrow> result False (Some ''error'') (Some m))"

text \<open>
  The cascade as the specification words it, over the URL, the content and the number of
  elements that match the configured selector: five checks in a fixed order, each with the
  result it sets; the first check that matches wins, and the result is \<open>unable to determine\<close>
  when none does.
\<close>

definition verification_checks ::
    "string \<Rightarrow> string \<Rightarrow> nat \<Rightarrow> successIndicators \<Rightarrow> (bool \<times> verification) list" where
  "verification_checks url content n ind =
     [(successUrl ind \<noteq> [] \<and> str_includes url (successUrl ind),
         result True (Some ''url'') (Some (''URL changed to '' @ url))),
      (successMessage ind \<noteq> [] \<and> str_includes content (successMessage ind),
         result True (Some ''message'') (Some ''Success message found'')),
      (successSelector ind \<noteq> [] \<and> n > 0,
         result True (Some ''element'') (Some ''Success element found''))]
     @ map (\<lambda>keyword. (str_includes (toLowerCase content) keyword,
              result True (Some ''keyword'') (Some (''Found keyword: '' @ keyword))))
         successKeywords
     @ map (\<lambda>keyword. (str_includes (toLowerCase content) keyword,
              result False (Some ''error'') (Some (''Found error keyword: '' @ keyword))))
         errorKeywords"

definition first_matching_check ::
    "string \<Rightarrow> string \<Rightarrow> nat \<Rightarrow> successIndicators \<Rightarrow> verification" where
  "first_matching_check url content n ind =
     (case find fst (verification_checks url content n ind) of
        Some (matched, r) \<Rightarrow> r
      | None \<Rightarrow> result False None (Some ''Unable to determine submission status''))"

section \<open>Checkout verification (\<open>CartPandaCheckout\<close>)\<close>

text \<open>\<open>const pageText = await page.textContent('body').catch(() => '')\<close>: a rejected read is
  the empty text.\<close>

definition pageText_of :: "page \<Rightarrow> string" where
  "pageText_of pg = (case page_text pg of Inl e \<Rightarrow> [] | Inr t \<Rightarrow> t)"

text \<open>The two indicator arrays of one polling iteration, and \<open>.some(indicator => indicator)\<close>.\<close>

definition checkout_successIndicators :: "string \<Rightarrow> string \<Rightarrow> bool list" where
  "checkout_successIndicators url pageText =
     [str_includes url ''/thank-you'',
      str_includes url ''/success'',
      str_includes url ''/confirmation'',
      str_includes url ''/order-complete'',
      str_includes pageText ''Obrigado'',
      str_includes pageText ''Thank you'',
      str_includes pageText ''Pedido confirmado'',
      str_includes pageText ''Order confirmed'',
      str_includes pageText ''Compra realizada'',
      str_includes pageText ''Purchase complete'']"

definition checkout_errorIndicators :: "string \<Rightarrow> bool list" where
  "checkout_errorIndicators pageText =
     [str_includes pageText ''declined'',
      str_includes pageText ''recusado'',
      str_includes pageText ''error'',
      str_includes pageText ''erro'',
      str_includes pageText ''failed'',
      str_includes pageText ''falhou'']"

definition some :: "bool list \<Rightarrow> bool" where
  "some indicators = list_ex (\<lambda>indicator. indicator) indicators"

definition success_detected :: "page \<Rightarrow> bool" where
  "success_detected pg = some (checkout_successIndicators (page_url pg) (pageText_of pg))"

definition error_detected :: "page \<Rightarrow> bool" where
  "error_detected pg = some (checkout_errorIndicators (pageText_of pg))"

text \<open>
  \<open>extractOrderNumber\<close>. Each pattern is \<open>/label[#\s:]*([A-Z0-9-]+)/i\<close>: the leftmost position at
  which the label stands (in any case) and where, after the longest run of \<open>#\<close>, white space
  and \<open>:\<close>, at least one letter, digit or hyphen follows; the capture is the longest run of
  those. The two classes are disjoint, so backtracking finds nothing else.
\<close>

definition is_space :: "char \<Rightarrow> bool" where
  "is_space c = (let n = (of_char c :: nat) in (9 \<le> n \<and> n \<le> 13) \<or> n = 32 \<or> n = 160)"

definition is_separator :: "char \<Rightarrow> bool" where
  "is_separator c = (c = CHR ''#'' \<or> is_space c \<or> c = CHR '':'')"

definition is_order_char :: "char \<Rightarrow> bool" where
  "is_order_char c = (let n = (of_char c :: nat)
     in is_ascii_letter c \<or> (48 \<le> n \<and> n \<le> 57) \<or> c = CHR ''-'')"

fun match_labeled :: "string \<Rightarrow> string \<Rightarrow> string option" where
  "match_labeled label [] = None"
| "match_labeled label (c # s) =
     (if startsWith (toLowerCase (c # s)) label
      then (case takeWhile is_order_char (dropWhile is_separator (drop (length label) (c # s))) of
              [] \<Rightarrow> match_labeled label s
            | d # ds \<Rightarrow> Some (d # ds))
      else match_labeled label s)"

definition order_labels :: "string list" where
  "order_labels = [''pedido'', ''order'', ''n'' @ [CHR 0xFA] @ ''mero'', ''number'']"

fun first_pattern :: "string list \<Rightarrow> string \<Rightarrow> string option" where
  "first_pattern [] pageText = None"
| "first_pattern (label # labels) pageText =
     (case match_labeled label pageText of
        Some m \<Rightarrow> Some m
      | None \<Rightarrow> first_pattern labels pageText)"

text \<open>\<open>extractOrderNumber\<close> reads the body text once more; that read has no \<open>.catch\<close>, and its
  rejection reaches the \<open>catch\<close> block of the function, which returns \<open>null\<close>. The argument is
  the outcome of that read.\<close>

definition extractOrderNumber :: "error + string \<Rightarrow> string option" where
  "extractOrderNumber read =
     (case read of
        Inl e \<Rightarrow> None
      | Inr pageText \<Rightarrow> first_pattern order_labels pageText)"

text \<open>
  The polling loop of \<open>verifyCheckoutSuccess\<close>, with explicit time in milliseconds. What the
  world shows and how long it takes in iteration \<open>k\<close> is the record \<open>polls k\<close>:
  \<^item> \<open>p_page\<close>: the URL that \<open>page.url()\<close> returns and the outcome of the read
    \<open>page.textContent('body')\<close> of the iteration;
  \<^item> \<open>p_read_ms\<close>: the time from the loop test to the end of that read, when the indicators
    are evaluated;
  \<^item> \<open>p_reread\<close> and \<open>p_extract_ms\<close>: the outcome and the duration of the second read, the one
    of \<open>extractOrderNumber\<close>, which happens only when a success indicator holds;
  \<^item> \<open>p_oversleep_ms\<close>: by how much \<open>await sleep(3000)\<close> lasts longer than 3000 ms.

  \<open>elapsed\<close> is \<open>Date.now() - startTime\<close> at the loop test. The second component of the result
  is the time at which the function returns: after the read of the iteration that matches
  (and after the second read, on success), or at the loop test that fails. Nothing in the
  \<open>try\<close> block can throw (the read has its \<open>.catch\<close>, \<open>extractOrderNumber\<close> its own \<open>try\<close>), so
  the outer \<open>catch\<close> has no branch here.
\<close>

record poll =
  p_page :: page
  p_read_ms :: nat
  p_reread :: "error + string"
  p_extract_ms :: nat
  p_oversleep_ms :: nat

definition maxWaitTime :: nat where
  "maxWaitTime = 90000"

function verify_loop :: "(nat \<Rightarrow> poll) \<Rightarrow> nat \<Rightarrow> nat \<Rightarrow> verification \<times> nat" where
  "verify_loop polls k elapsed =
     (if elapsed < maxWaitTime then
        (if success_detected (p_page (polls k)) then
           (\<lparr>v_success = True, v_method = Some ''cartpanda_success_detection'',
             v_message = Some ''Checkout completed successfully'',
             v_url = Some (page_url (p_page (polls k))),
             v_orderNumber = extractOrderNumber (p_reread (polls k))\<rparr>,
            elapsed + p_read_ms (polls k) + p_extract_ms (polls k))
         else if error_detected (p_page (polls k)) then
           (\<lparr>v_success = False, v_method = Some ''cartpanda_error_detection'',
             v_message = Some ''Payment was declined or failed'',
             v_url = Some (page_url (p_page (polls k))), v_orderNumber = None\<rparr>,
            elapsed + p_read_ms (polls k))
         else verify_loop polls (Suc k)
                (elapsed + p_read_ms (polls k) + 3000 + p_oversleep_ms (polls k)))
      else
        (\<lparr>v_success = False, v_method = Some ''timeout'',
          v_message = Some ''Could not verify checkout success within 90 seconds'',
          v_url = Some (page_url (p_page (polls k))), v_orderNumber = None\<rparr>, elapsed))"
  by pat_completeness auto
termination
  by (relation "measure (\<lambda>(polls, k, elapsed). maxWaitTime - elapsed)")
     (auto simp: maxWaitTime_def)

declare verify_loop.simps [simp del]

definition verifyCheckoutSuccess :: "(nat \<Rightarrow> poll) \<Rightarrow> verification" where
  "verifyCheckoutSuccess polls = fst (verify_loop polls 0 0)"


text \<open>The time of the loop test of iteration \<open>k\<close>, when every earlier iteration matched
  nothing.\<close>

primrec elapsed_at :: "(nat \<Rightarrow> poll) \<Rightarrow> nat \<Rightarrow> nat" where
  "elapsed_at polls 0 = 0"
| "elapsed_at polls (Suc k) =
     elapsed_at polls k + p_read_ms (polls k) + 3000 + p_oversleep_ms (polls k)"

definition quiet :: "page \<Rightarrow> bool" where
  "quiet pg = (\<not> success_detected pg \<and> \<not> error_detected pg)"

text \<open>The success phrases of the specification: the indicators that look at the page text.\<close>

definition success_phrases :: "string list" where
  "success_phrases = [''Obrigado'', ''Thank you'', ''Pedido confirmado'', ''Order confirmed'',
     ''Compra realizada'', ''Purchase complete'']"

definition shows_success_phrase :: "page \<Rightarrow> bool" where
  "shows_success_phrase pg = list_ex (\<lambda>phrase. str_includes (pageText_of pg) phrase) success_phrases"

text \<open>Page states used as concrete inputs, and the poll of a page that does not change
  between the two reads, each read taking \<open>ms\<close> milliseconds.\<close>

definition blank_page :: page where
  "blank_page = \<lparr>page_url = ''https://shop.test/checkout'', page_content = Inr [],
     page_text = Inr ''Processing'', page_count = (\<lambda>sel. Inr 0)\<rparr>"

definition declined_page :: page where
  "declined_page = \<lparr>page_url = ''https://shop.test/checkout'', page_content = Inr [],
     page_text = Inr ''Card declined'', page_count = (\<lambda>sel. Inr 0)\<rparr>"

definition thanks_with_error_page :: page where
  "thanks_with_error_page = \<lparr>page_url = ''https://shop.test/checkout'', page_content = Inr [],
     page_text = Inr ''Thank you! No error. Order #A-17'', page_count = (\<lambda>sel. Inr 0)\<rparr>"

definition declined_with_return_url_page :: page where
  "declined_with_return_url_page =
     \<lparr>page_url = ''https://shop.test/checkout?return=/thank-you'', page_content = Inr [],
      page_text = Inr ''Card declined'', page_count = (\<lambda>sel. Inr 0)\<rparr>"

definition steady :: "page \<Rightarrow> nat \<Rightarrow> poll" where
  "steady pg ms = \<lparr>p_page = pg, p_read_ms = ms, p_reread = page_text pg, p_extract_ms = ms,
     p_oversleep_ms = 0\<rparr>"




section \<open>Mouse path (\<open>generateMousePath\<close>)\<close>


















section \<open>Profile store (\<open>ProfileManager\<close>)\<close>

text \<open>
  The file system is a tree of directories and regular files, without links, permissions or
  limits: a map from absolute paths (the list of components below \<open>/\<close>) to nodes. A path
  resolves when each of its proper prefixes is a directory. A call can also fail for a reason
  outside the tree (access denied, device busy): each call that changes the tree takes a flag
  \<open>ok\<close>, and \<open>ok = False\<close> is that failure. A component is a name of a directory entry
  when it is not empty, \<open>.\<close> or \<open>..\<close> and has no \<open>/\<close> and no NUL.
\<close>

datatype node = Dir | File

type_synonym path = "string list"

type_synonym filesystem = "path \<Rightarrow> node option"

definition is_name :: "string \<Rightarrow> bool" where
  "is_name n = (n \<noteq> [] \<and> n \<noteq> ''.'' \<and> n \<noteq> ''..'' \<and> CHR ''/'' \<notin> set n \<and> CHR 0x00 \<notin> set n)"

definition has_nul :: "path \<Rightarrow> bool" where
  "has_nul p = list_ex (\<lambda>c. CHR 0x00 \<in> set c) p"

text \<open>\<open>path.join(this.profilesDir, accountId)\<close> on POSIX: the second argument is cut at every
  \<open>/\<close>; an empty segment and \<open>.\<close> are dropped and \<open>..\<close> removes the last component. The
  profiles directory is the result of \<open>path.resolve\<close>: absolute and normalised.\<close>

fun split_slash :: "string \<Rightarrow> string list" where
  "split_slash [] = [[]]"
| "split_slash (c # s) =
     (if c = CHR ''/'' then [] # split_slash s
      else (case split_slash s of
              [] \<Rightarrow> [[c]]
            | w # ws \<Rightarrow> (c # w) # ws))"

definition norm_step :: "path \<Rightarrow> string \<Rightarrow> path" where
  "norm_step p seg =
     (if seg = [] \<or> seg = ''.'' then p else if seg = ''..'' then butlast p else p @ [seg])"

definition path_join :: "path \<Rightarrow> string \<Rightarrow> path" where
  "path_join dir accountId = foldl norm_step dir (split_slash accountId)"

text \<open>\<open>fs.existsSync\<close> never throws; a path with a NUL does not exist.\<close>

definition existsSync :: "filesystem \<Rightarrow> path \<Rightarrow> bool" where
  "existsSync fs p =
     (\<not> has_nul p \<and> list_all (\<lambda>q. fs q = Some Dir) (butlast (prefixes p)) \<and> fs p \<noteq> None)"

text \<open>\<open>fs.mkdirSync(p, { recursive: true })\<close>: throws when a prefix of \<open>p\<close> is a regular file,
  otherwise every prefix of \<open>p\<close> is a directory afterwards.\<close>

definition mkdirSync :: "filesystem \<Rightarrow> path \<Rightarrow> bool \<Rightarrow> error + filesystem" where
  "mkdirSync fs p ok =
     (if has_nul p then Inl (Error ''ERR_INVALID_ARG_VALUE'')
      else if \<not> ok then Inl (Error ''EACCES'')
      else if list_ex (\<lambda>q. fs q = Some File) (prefixes p) then Inl (Error ''ENOTDIR'')
      else Inr (\<lambda>q. if prefix q p then Some Dir else fs q))"

text \<open>\<open>fs.rmSync(p, { recursive: true, force: true })\<close>: \<open>p\<close> and everything below it is gone.\<close>

definition rmSync :: "filesystem \<Rightarrow> path \<Rightarrow> bool \<Rightarrow> error + filesystem" where
  "rmSync fs p ok =
     (if \<not> ok then Inl (Error ''EBUSY'')
      else Inr (\<lambda>q. if prefix p q then None else fs q))"

text \<open>\<open>fs.readdirSync(d)\<close> of a directory \<open>d\<close>: the names of its entries, as a set (the order of
  the array is the operating system's).\<close>

definition readdirSync :: "filesystem \<Rightarrow> path \<Rightarrow> string set" where
  "readdirSync fs d = {n. is_name n \<and> fs (d @ [n]) \<noteq> None}"

definition getProfilePath :: "path \<Rightarrow> filesystem \<Rightarrow> string \<Rightarrow> bool \<Rightarrow> error + (path \<times> filesystem)" where
  "getProfilePath profilesDir fs accountId ok =
     (let profilePath = path_join profilesDir accountId in
      if \<not> existsSync fs profilePath then
        (case mkdirSync fs profilePath ok of
           Inl e \<Rightarrow> Inl e
         | Inr fs' \<Rightarrow> Inr (profilePath, fs'))
      else Inr (profilePath, fs))"

definition deleteProfile :: "path \<Rightarrow> filesystem \<Rightarrow> string \<Rightarrow> bool \<Rightarrow> error + filesystem" where
  "deleteProfile profilesDir fs accountId ok =
     (let profilePath = path_join profilesDir accountId in
      if existsSync fs profilePath then rmSync fs profilePath ok else Inr fs)"

text \<open>\<open>listProfiles\<close>: \<open>readdirSync\<close> throws when the profiles path is a regular file.\<close>

definition listProfiles :: "path \<Rightarrow> filesystem \<Rightarrow> error + string set" where
  "listProfiles profilesDir fs =
     (if \<not> existsSync fs profilesDir then Inr {}
      else if fs profilesDir = Some File then Inl (Error ''ENOTDIR'')
      else Inr {file \<in> readdirSync fs profilesDir. fs (profilesDir @ [file]) = Some Dir})"

text \<open>The listing includes \<open>accountId\<close>.\<close>

definition listed :: "path \<Rightarrow> filesystem \<Rightarrow> string \<Rightarrow> bool" where
  "listed profilesDir fs accountId =
     (case listProfiles profilesDir fs of
        Inl e \<Rightarrow> False
      | Inr profiles \<Rightarrow> accountId \<in> profiles)"

text \<open>A file system that holds the empty profiles directory \<open>/srv/profiles\<close> and nothing else.\<close>

definition srv_profiles :: path where
  "srv_profiles = [''srv'', ''profiles'']"

definition fresh_fs :: filesystem where
  "fresh_fs = (\<lambda>q. if prefix q srv_profiles then Some Dir else None)"

section \<open>Browser sessions and the job body (\<open>BrowserManager\<close>, \<open>FormFillingWorker\<close>)\<close>

text \<open>
  The part of the configuration that the job body reads, and the data of a job. The options
  object is reduced to the flag \<open>takeScreenshots\<close>.
\<close>

record config =
  cfg_proxy :: proxy_config
  cfg_profilesDir :: path

record job =
  j_accountId :: string
  j_sessionId :: string
  j_formData :: formData
  j_targetUrl :: string
  j_submitSelector :: string
  j_successIndicators :: successIndicators
  j_takeScreenshots :: bool

text \<open>The result of a form-fill pass: the lists \<open>filled\<close>, \<open>failed\<close> and \<open>skipped\<close>, each entry a
  field with its type, selector, error or reason.\<close>

record fill_results =
  filled :: "(string \<times> string) list"
  failed :: "(string \<times> string) list"
  skipped :: "(string \<times> string) list"

text \<open>The value that \<open>processJob\<close> returns (without the two clock readings \<open>duration\<close> and
  \<open>timestamp\<close>).\<close>

record job_result =
  jr_success :: bool
  jr_accountId :: string
  jr_sessionId :: string
  jr_fillResults :: fill_results
  jr_verification :: verification

text \<open>
  What the world outside the job body does during one run: for each awaited call whether it
  resolves (\<open>None\<close>, \<open>True\<close>) or rejects (\<open>Some e\<close>, \<open>False\<close>), and what the page shows. The two
  fill passes and the two submit operations are calls into other modules whose outcome
  depends on the page reacting to clicks and keystrokes; the environment gives their outcome.
  The launch has three awaited stages: \<open>chromium.launch\<close>, which starts the browser
  \<open>e_browser\<close>; \<open>browser.newContext\<close>, which creates the context \<open>e_context\<close>; and the set-up of
  the page (\<open>injectStealthScripts\<close>, then \<open>context.newPage\<close>).
\<close>

type_synonym handle = nat

record env =
  e_progress :: "nat \<Rightarrow> error option"
  e_mkdir_ok :: bool
  e_chromium_launch :: "error option"
  e_newContext :: "error option"
  e_page_setup :: "error option"
  e_browser :: handle
  e_context :: handle
  e_goto :: "error option"
  e_probe_ok :: bool
  e_page :: page
  e_fill :: "error + fill_results"
  e_submit :: "error option"
  e_page_submitted :: page
  e_polls :: "nat \<Rightarrow> poll"
  e_screenshot_ok :: "string \<Rightarrow> bool"
  e_timestamp :: "string \<Rightarrow> string"
  e_context_close_ok :: bool
  e_browser_close_ok :: bool
  e_rm_ok :: bool
  e_rm_finally_ok :: bool

text \<open>The operations that a run attempts, in order.\<close>

datatype event =
    UpdateProgress nat
  | LaunchBrowser string
  | ChromiumLaunch
  | NewContext "(string \<times> string) option"
  | SetUpPage
  | Goto string
  | TakeScreenshot string string
  | CheckIfBlocked
  | FillCheckoutForm
  | SubmitCheckout
  | VerifyCheckoutSuccess
  | DetectCaptcha
  | FillForm
  | SubmitForm
  | VerifySubmission
  | CloseContext string
  | CloseBrowser string
  | DeleteProfile string

text \<open>The state that a run reads and changes: the file system, the two maps of the browser
  manager, the browsers that are running (started by \<open>chromium.launch\<close> and not closed since),
  whether a map names them or not, and the trace of the operations attempted so far.\<close>

record run =
  r_fs :: filesystem
  r_browsers :: "string \<rightharpoonup> handle"
  r_contexts :: "string \<rightharpoonup> handle"
  r_running :: "handle set"
  r_trace :: "event list"

definition attempt :: "event \<Rightarrow> run \<Rightarrow> run" where
  "attempt ev st = st\<lparr>r_trace := r_trace st @ [ev]\<rparr>"

text \<open>Sequencing of awaited steps: a rejection leaves the \<open>try\<close> block with the state reached.\<close>

definition and_then ::
    "(run \<Rightarrow> (error + 'a) \<times> run) \<Rightarrow> ('a \<Rightarrow> run \<Rightarrow> (error + 'b) \<times> run) \<Rightarrow> run \<Rightarrow> (error + 'b) \<times> run" where
  "and_then m f st = (case m st of (Inl e, st') \<Rightarrow> (Inl e, st') | (Inr a, st') \<Rightarrow> f a st')"

definition returns :: "'a \<Rightarrow> run \<Rightarrow> (error + 'a) \<times> run" where
  "returns a st = (Inr a, st)"

definition throws :: "error \<Rightarrow> run \<Rightarrow> (error + 'a) \<times> run" where
  "throws e st = (Inl e, st)"

definition awaited :: "error option \<Rightarrow> run \<Rightarrow> (error + unit) \<times> run" where
  "awaited outcome st = (case outcome of None \<Rightarrow> (Inr (), st) | Some e \<Rightarrow> (Inl e, st))"

definition updateProgress :: "env \<Rightarrow> nat \<Rightarrow> run \<Rightarrow> (error + unit) \<times> run" where
  "updateProgress ev n st = awaited (e_progress ev n) (attempt (UpdateProgress n) st)"

text \<open>
  \<open>takeScreenshot\<close>: the whole body is in \<open>try\<close>/\<open>catch\<close>, so it never throws. It creates the
  directory \<open>screenshots\<close> under the profiles directory when that is missing, and
  \<open>page.screenshot\<close> writes the file; when the write succeeds the file exists, below
  directories.
\<close>

definition writeFile :: "filesystem \<Rightarrow> path \<Rightarrow> bool \<Rightarrow> error + filesystem" where
  "writeFile fs p ok =
     (if has_nul p \<or> \<not> ok then Inl (Error ''page.screenshot rejected'')
      else if list_ex (\<lambda>q. fs q = Some File) (butlast (prefixes p)) \<or> fs p = Some Dir
        then Inl (Error ''page.screenshot rejected'')
      else Inr (\<lambda>q. if q = p then Some File else if prefix q p then Some Dir else fs q))"

definition takeScreenshot :: "config \<Rightarrow> env \<Rightarrow> string \<Rightarrow> string \<Rightarrow> run \<Rightarrow> run" where
  "takeScreenshot cfg ev accountId name st =
     (let st0 = attempt (TakeScreenshot accountId name) st;
          screenshotsDir = path_join (cfg_profilesDir cfg) ''screenshots''
      in case (if \<not> existsSync (r_fs st0) screenshotsDir
               then mkdirSync (r_fs st0) screenshotsDir (e_screenshot_ok ev name)
               else Inr (r_fs st0)) of
           Inl e \<Rightarrow> st0
         | Inr fs1 \<Rightarrow>
             (let filename = accountId @ ''_'' @ name @ ''_'' @ e_timestamp ev name @ ''.png'';
                  filepath = path_join screenshotsDir filename
              in case writeFile fs1 filepath (e_screenshot_ok ev name) of
                   Inl e \<Rightarrow> st0\<lparr>r_fs := fs1\<rparr>
                 | Inr fs2 \<Rightarrow> st0\<lparr>r_fs := fs2\<rparr>))"

text \<open>The \<open>httpCredentials\<close> that \<open>newContext\<close> receives: present when both \<open>proxyUsername\<close> and
  \<open>proxyPassword\<close> are truthy.\<close>

definition httpCredentials :: "proxy_config \<Rightarrow> string \<Rightarrow> (string \<times> string) option" where
  "httpCredentials cfg accountId =
     (case proxyUsername cfg accountId of
        None \<Rightarrow> None
      | Some proxyUser \<Rightarrow>
          if proxyUser \<noteq> [] \<and> password cfg \<noteq> [] then Some (proxyUser, password cfg) else None)"

text \<open>
  \<open>launchBrowser\<close>: the profile directory is created first; then \<open>chromium.launch\<close> starts the
  browser, \<open>browser.newContext\<close> creates the context, the page is set up, and only after all
  of that the two maps are set. A rejection on the way is logged and rethrown by the \<open>catch\<close>
  block, which closes nothing: a browser that has been started stays running.
\<close>

definition launchBrowser :: "config \<Rightarrow> env \<Rightarrow> string \<Rightarrow> run \<Rightarrow> (error + unit) \<times> run" where
  "launchBrowser cfg ev accountId st =
     (let st0 = attempt (LaunchBrowser accountId) st
      in case getProfilePath (cfg_profilesDir cfg) (r_fs st0) accountId (e_mkdir_ok ev) of
           Inl e \<Rightarrow> (Inl e, st0)
         | Inr (userDataDir, fs1) \<Rightarrow>
             (let st1 = attempt ChromiumLaunch (st0\<lparr>r_fs := fs1\<rparr>)
              in case e_chromium_launch ev of
                   Some e \<Rightarrow> (Inl e, st1)
                 | None \<Rightarrow>
                     (let st2 = attempt (NewContext (httpCredentials (cfg_proxy cfg) accountId))
                                  (st1\<lparr>r_running := insert (e_browser ev) (r_running st1)\<rparr>)
                      in case e_newContext ev of
                           Some e \<Rightarrow> (Inl e, st2)
                         | None \<Rightarrow>
                             (let st3 = attempt SetUpPage st2
                              in case e_page_setup ev of
                                   Some e \<Rightarrow> (Inl e, st3)
                                 | None \<Rightarrow>
                                     (Inr (),
                                      st3\<lparr>r_browsers := (r_browsers st3)(accountId \<mapsto> e_browser ev),
                                          r_contexts := (r_contexts st3)(accountId \<mapsto> e_context ev)\<rparr>)))))"

text \<open>
  \<open>closeBrowser\<close>: the context is closed and removed from its map, then the browser; a
  rejection of either \<open>close()\<close> is caught and logged, and what follows it in the \<open>try\<close> block
  is skipped. Only the browser that the map names for the id is closed.
\<close>

definition closeBrowser :: "env \<Rightarrow> string \<Rightarrow> run \<Rightarrow> run" where
  "closeBrowser ev accountId st =
     (case (case r_contexts st accountId of
              None \<Rightarrow> Inr st
            | Some context \<Rightarrow>
                (let st1 = attempt (CloseContext accountId) st
                 in if e_context_close_ok ev
                    then Inr (st1\<lparr>r_contexts := (r_contexts st1)(accountId := None)\<rparr>)
                    else Inl st1)) of
        Inl st1 \<Rightarrow> st1
      | Inr st1 \<Rightarrow>
          (case r_browsers st1 accountId of
             None \<Rightarrow> st1
           | Some browser \<Rightarrow>
               (let st2 = attempt (CloseBrowser accountId) st1
                in if e_browser_close_ok ev
                   then st2\<lparr>r_browsers := (r_browsers st2)(accountId := None),
                            r_running := r_running st2 - {browser}\<rparr>
                   else st2)))"

text \<open>\<open>profileManager.deleteProfile(sessionId)\<close> as a step of the run.\<close>

definition deleteProfile_step :: "config \<Rightarrow> string \<Rightarrow> bool \<Rightarrow> run \<Rightarrow> (error + unit) \<times> run" where
  "deleteProfile_step cfg sessionId ok st =
     (let st0 = attempt (DeleteProfile sessionId) st
      in case deleteProfile (cfg_profilesDir cfg) (r_fs st0) sessionId ok of
           Inl e \<Rightarrow> (Inl e, st0)
         | Inr fs1 \<Rightarrow> (Inr (), st0\<lparr>r_fs := fs1\<rparr>))"

text \<open>\<open>checkIfBlocked\<close>: a phrase of the list in the body text; it never throws.\<close>

definition blockMessages :: "string list" where
  "blockMessages = [''Sorry, you have been blocked'', ''Access Denied'', ''Blocked'', ''captcha'']"

definition checkIfBlocked :: "page \<Rightarrow> bool" where
  "checkIfBlocked pg = list_ex (\<lambda>msg. str_includes (pageText_of pg) msg) blockMessages"

text \<open>\<open>detectCaptcha\<close>: the selectors are counted in order; the first positive count returns
  \<open>true\<close>, and a rejected count is thrown to the caller.\<close>

definition captchaIndicators :: "string list" where
  "captchaIndicators =
     [''iframe[src*=\"recaptcha\"]'', ''iframe[src*=\"hcaptcha\"]'', ''.g-recaptcha'',
      ''.h-captcha'', ''#captcha'', ''[class*=\"captcha\"]'']"

fun captcha_loop :: "page \<Rightarrow> string list \<Rightarrow> error + bool" where
  "captcha_loop pg [] = Inr False"
| "captcha_loop pg (selector # selectors) =
     (case page_count pg selector of
        Inl e \<Rightarrow> Inl e
      | Inr element \<Rightarrow> if element > 0 then Inr True else captcha_loop pg selectors)"

definition detectCaptcha :: "page \<Rightarrow> error + bool" where
  "detectCaptcha pg = captcha_loop pg captchaIndicators"

text \<open>The steps of the \<open>try\<close> block of \<open>processJob\<close>.\<close>

definition screenshot_step :: "config \<Rightarrow> env \<Rightarrow> job \<Rightarrow> string \<Rightarrow> run \<Rightarrow> (error + unit) \<times> run" where
  "screenshot_step cfg ev jb name st =
     (Inr (), if j_takeScreenshots jb then takeScreenshot cfg ev (j_sessionId jb) name st else st)"

definition goto_step :: "env \<Rightarrow> job \<Rightarrow> run \<Rightarrow> (error + unit) \<times> run" where
  "goto_step ev jb st = awaited (e_goto ev) (attempt (Goto (j_targetUrl jb)) st)"

definition fill_step :: "event \<Rightarrow> env \<Rightarrow> run \<Rightarrow> (error + fill_results) \<times> run" where
  "fill_step operation ev st = (e_fill ev, attempt operation st)"

definition submit_step :: "event \<Rightarrow> env \<Rightarrow> run \<Rightarrow> (error + unit) \<times> run" where
  "submit_step operation ev st = awaited (e_submit ev) (attempt operation st)"

text \<open>
  \<open>targetUrl.includes('cartpanda') || await page.$(sel).then(() => true).catch(() => false)\<close>:
  the \<open>then\<close> maps every resolved value, also \<open>null\<close> for no element, to \<open>true\<close>, so the second
  operand is \<open>false\<close> only when the probe rejects.
\<close>

definition isCartPanda :: "env \<Rightarrow> job \<Rightarrow> bool" where
  "isCartPanda ev jb = (str_includes (j_targetUrl jb) ''cartpanda'' \<or> e_probe_ok ev)"

definition blocked_error :: error where
  "blocked_error = Error ''Page is blocked - possible CAPTCHA or IP ban''"

definition captcha_error :: error where
  "captcha_error = Error ''CAPTCHA detected - manual intervention required''"

definition checkout_path ::
    "config \<Rightarrow> env \<Rightarrow> job \<Rightarrow> run \<Rightarrow> (error + fill_results \<times> verification) \<times> run" where
  "checkout_path cfg ev jb st =
     (let st0 = attempt CheckIfBlocked st
      in if checkIfBlocked (e_page ev)
         then and_then (screenshot_step cfg ev jb ''blocked'') (\<lambda>u. throws blocked_error) st0
         else
           and_then (updateProgress ev 40) (\<lambda>u.
           and_then (fill_step FillCheckoutForm ev) (\<lambda>fillResults.
           and_then (updateProgress ev 70) (\<lambda>u.
           and_then (screenshot_step cfg ev jb ''before-submit'') (\<lambda>u.
           and_then (submit_step SubmitCheckout ev) (\<lambda>u.
           and_then (updateProgress ev 85) (\<lambda>u.
           and_then (\<lambda>s. returns (verifyCheckoutSuccess (e_polls ev))
                            (attempt VerifyCheckoutSuccess s)) (\<lambda>verification.
           returns (fillResults, verification)))))))) st0)"

definition generic_path ::
    "config \<Rightarrow> env \<Rightarrow> job \<Rightarrow> run \<Rightarrow> (error + fill_results \<times> verification) \<times> run" where
  "generic_path cfg ev jb st =
     (let st0 = attempt DetectCaptcha st
      in case detectCaptcha (e_page ev) of
           Inl e \<Rightarrow> (Inl e, st0)
         | Inr hasCaptcha \<Rightarrow>
             if hasCaptcha
             then and_then (screenshot_step cfg ev jb ''captcha'') (\<lambda>u. throws captcha_error) st0
             else
               and_then (updateProgress ev 40) (\<lambda>u.
               and_then (fill_step FillForm ev) (\<lambda>fillResults.
               and_then (updateProgress ev 70) (\<lambda>u.
               and_then (screenshot_step cfg ev jb ''before-submit'') (\<lambda>u.
               and_then (submit_step SubmitForm ev) (\<lambda>u.
               and_then (updateProgress ev 85) (\<lambda>u.
               and_then (\<lambda>s. returns (verifySubmission (e_page_submitted ev)
                                          (j_successIndicators jb))
                                (attempt VerifySubmission s)) (\<lambda>verification.
               returns (fillResults, verification)))))))) st0)"

text \<open>The \<open>try\<close> block after \<open>launchBrowser\<close> (from there on \<open>page\<close> is defined), in three
  parts: up to the first screenshot, the specialized or the generic path, and from the progress
  update 95 to the \<open>return\<close>.\<close>

definition navigate :: "config \<Rightarrow> env \<Rightarrow> job \<Rightarrow> run \<Rightarrow> (error + unit) \<times> run" where
  "navigate cfg ev jb =
     and_then (updateProgress ev 20) (\<lambda>u.
     and_then (goto_step ev jb) (\<lambda>u.
     and_then (updateProgress ev 30) (\<lambda>u.
     screenshot_step cfg ev jb ''initial'')))"

definition record_result ::
    "config \<Rightarrow> env \<Rightarrow> job \<Rightarrow> fill_results \<Rightarrow> verification \<Rightarrow> run \<Rightarrow> (error + job_result) \<times> run" where
  "record_result cfg ev jb fillResults verification =
     and_then (updateProgress ev 95) (\<lambda>u.
     and_then (screenshot_step cfg ev jb ''after-submit'') (\<lambda>u.
     and_then (updateProgress ev 100) (\<lambda>u.
     and_then (deleteProfile_step cfg (j_sessionId jb) (e_rm_ok ev)) (\<lambda>u.
     returns \<lparr>jr_success = v_success verification, jr_accountId = j_accountId jb,
              jr_sessionId = j_sessionId jb, jr_fillResults = fillResults,
              jr_verification = verification\<rparr>))))"

definition try_after_launch :: "config \<Rightarrow> env \<Rightarrow> job \<Rightarrow> run \<Rightarrow> (error + job_result) \<times> run" where
  "try_after_launch cfg ev jb =
     and_then (navigate cfg ev jb) (\<lambda>u.
     and_then (if isCartPanda ev jb then checkout_path cfg ev jb else generic_path cfg ev jb)
       (\<lambda>(fillResults, verification). record_result cfg ev jb fillResults verification))"

text \<open>The \<open>finally\<close> block: both parts are guarded by \<open>if (sessionId)\<close>, and an error of
  \<open>deleteProfile\<close> is caught and logged.\<close>

definition finally_block :: "config \<Rightarrow> env \<Rightarrow> job \<Rightarrow> run \<Rightarrow> run" where
  "finally_block cfg ev jb st =
     (let st1 = (if j_sessionId jb \<noteq> [] then closeBrowser ev (j_sessionId jb) st else st);
          st2 = (if j_sessionId jb \<noteq> []
                 then snd (deleteProfile_step cfg (j_sessionId jb) (e_rm_finally_ok ev) st1)
                 else st1)
      in st2)"

text \<open>
  \<open>processJob\<close>: the \<open>try\<close> block, the \<open>catch\<close> block (an error screenshot when \<open>page\<close> is defined,
  that is when \<open>launchBrowser\<close> has returned, then the error is rethrown) and the \<open>finally\<close>
  block. The result is the value returned or the error thrown, with the state left behind.
\<close>

definition try_catch :: "config \<Rightarrow> env \<Rightarrow> job \<Rightarrow> run \<Rightarrow> (error + job_result) \<times> run" where
  "try_catch cfg ev jb st =
     (case and_then (updateProgress ev 10) (\<lambda>u. launchBrowser cfg ev (j_sessionId jb)) st of
        (Inl e, st1) \<Rightarrow> (Inl e, st1)
      | (Inr u, st1) \<Rightarrow>
          (case try_after_launch cfg ev jb st1 of
             (Inl e, st2) \<Rightarrow> (Inl e, takeScreenshot cfg ev (j_sessionId jb) ''error'' st2)
           | (Inr r, st2) \<Rightarrow> (Inr r, st2)))"

definition processJob :: "config \<Rightarrow> env \<Rightarrow> job \<Rightarrow> run \<Rightarrow> (error + job_result) \<times> run" where
  "processJob cfg ev jb st =
     (case try_catch cfg ev jb st of (r, st') \<Rightarrow> (r, finally_block cfg ev jb st'))"

text \<open>Classes of operations, and a step that only adds operations of a class to the trace.\<close>

definition teardown :: "event \<Rightarrow> bool" where
  "teardown e = (case e of CloseContext a \<Rightarrow> True | CloseBrowser a \<Rightarrow> True
     | DeleteProfile a \<Rightarrow> True | _ \<Rightarrow> False)"

definition fills_or_submits :: "event \<Rightarrow> bool" where
  "fills_or_submits e =
     (e = FillForm \<or> e = SubmitForm \<or> e = FillCheckoutForm \<or> e = SubmitCheckout)"

definition adds :: "(event \<Rightarrow> bool) \<Rightarrow> (run \<Rightarrow> (error + 'a) \<times> run) \<Rightarrow> bool" where
  "adds P m = (\<forall>st. \<exists>es. r_trace (snd (m st)) = r_trace st @ es \<and> list_all P es)"

text \<open>The part of the state that holds the browsers, and a step that leaves it as it is.\<close>

definition session_state :: "run \<Rightarrow> (string \<rightharpoonup> handle) \<times> (string \<rightharpoonup> handle) \<times> handle set" where
  "session_state st = (r_browsers st, r_contexts st, r_running st)"


text \<open>A configuration, a job, a run state and environments used as concrete inputs.\<close>

definition cfg0 :: config where
  "cfg0 = \<lparr>cfg_proxy = \<lparr>enabled = False, decodServer = ''gate.decodo.com:7000'', username = [],
       password = [], country = [], state = [], city = []\<rparr>,
     cfg_profilesDir = srv_profiles\<rparr>"

definition job0 :: job where
  "job0 = \<lparr>j_accountId = ''acct'', j_sessionId = ''s1'',
     j_formData = [(''email'', JStr ''a@b.c'')], j_targetUrl = ''https://shop.test/form'',
     j_submitSelector = ''button'',
     j_successIndicators = \<lparr>successUrl = [], successMessage = [], successSelector = []\<rparr>,
     j_takeScreenshots = False\<rparr>"

definition start_run :: run where
  "start_run = \<lparr>r_fs = fresh_fs, r_browsers = Map.empty, r_contexts = Map.empty,
     r_running = {}, r_trace = []\<rparr>"

definition calm_env :: env where
  "calm_env = \<lparr>e_progress = (\<lambda>n. None), e_mkdir_ok = True,
     e_chromium_launch = None, e_newContext = None, e_page_setup = None, e_browser = 1,
     e_context = 2, e_goto = None, e_probe_ok = True, e_page = blank_page,
     e_fill = Inr \<lparr>filled = [], failed = [], skipped = []\<rparr>, e_submit = None,
     e_page_submitted = blank_page, e_polls = (\<lambda>k. steady blank_page 0),
     e_screenshot_ok = (\<lambda>name. True), e_timestamp = (\<lambda>name. ''t''),
     e_context_close_ok = True, e_browser_close_ok = True, e_rm_ok = True,
     e_rm_finally_ok = True\<rparr>"

definition captcha_page :: page where
  "captcha_page = \<lparr>page_url = ''https://shop.test/form'', page_content = Inr [],
     page_text = Inr ''Sign up'',
     page_count = (\<lambda>sel. Inr (if sel = ''.g-recaptcha'' then 1 else 0))\<rparr>"

definition captcha_env :: env where
  "captcha_env = calm_env\<lparr>e_probe_ok := False, e_page := captcha_page\<rparr>"

definition goto_fails_env :: env where
  "goto_fails_env = calm_env\<lparr>e_goto := Some (Error ''net::ERR_TIMED_OUT'')\<rparr>"

definition close_fails_env :: env where
  "close_fails_env = calm_env\<lparr>e_goto := Some (Error ''net::ERR_TIMED_OUT''),
     e_context_close_ok := False\<rparr>"

text \<open>A launch in which the browser starts and \<open>newContext\<close> rejects the time zone that the
  job passed in its browser options.\<close>

definition newContext_fails_env :: env where
  "newContext_fails_env =
     calm_env\<lparr>e_newContext := Some (Error ''Invalid timezone ID: Mars/Phobos'')\<rparr>"

text \<open>A page with two \<open>.g-recaptcha\<close> elements that navigates while the job looks at it: the
  probe for the card field and the count of the first indicator selector reject, the later
  counts resolve.\<close>

definition navigating_captcha_page :: page where
  "navigating_captcha_page = \<lparr>page_url = ''https://shop.test/form'', page_content = Inr [],
     page_text = Inr ''Sign up'',
     page_count = (\<lambda>sel. if sel = ''iframe[src*=\"recaptcha\"]''
                          then Inl (Error ''Execution context was destroyed'')
                          else Inr (if sel = ''.g-recaptcha'' then 2 else 0))\<rparr>"

definition navigating_captcha_env :: env where
  "navigating_captcha_env = calm_env\<lparr>e_probe_ok := False, e_page := navigating_captcha_page\<rparr>"

text \<open>The page \<open>captcha_page\<close> when the probe for the card field resolves (with \<open>null\<close>, as the
  page has no such field), and the checkout then shows its thanks at once.\<close>

definition probed_captcha_env :: env where
  "probed_captcha_env = calm_env\<lparr>e_probe_ok := True, e_page := captcha_page,
     e_polls := (\<lambda>k. steady thanks_with_error_page 0)\<rparr>"

section \<open>Properties\<close>

lemmas string_eval =
  toLowerCase_def toLowerCase_char_def case_table_def is_upper_def is_ascii_letter_def

lemma locationPart_suffix: "locationPart cfg = location_suffix cfg"
  by (simp add: locationPart_def location_suffix_def)

text \<open>
  C3 (as stated, refuted): for the two-letter-subdomain host \<open>us.provider.com\<close> the constructed
  username is not the configured one; the session suffix is appended, because the pattern of the
  source names the domain \<open>decodo.com\<close>.
\<close>

theorem proxy_username_provider_counterexample:
  "two_letter_subdomain_host ''us.provider.com'' \<and>
   proxyUsername \<lparr>enabled = True, decodServer = ''us.provider.com'', username = ''user1'',
       password = ''pw'', country = [], state = [], city = []\<rparr> ''s1''
     = Some ''user1-session-s1'' \<and>
   proxyUsername \<lparr>enabled = True, decodServer = ''us.provider.com'', username = ''user1'',
       password = ''pw'', country = [], state = [], city = []\<rparr> ''s1''
     \<noteq> Some ''user1''"
  by (simp add: two_letter_subdomain_host_def proxyUsername_def isSubdomainRouting_def
      locationPart_def string_eval)

text \<open>
  C3 (amended): with the proxy enabled, a host that starts with two letters followed by
  \<open>.decodo.com\<close> (in any case) gets the configured username unmodified; every other host gets the
  username followed by the non-empty parts among \<open>-country-\<close>, \<open>-state-\<close>, \<open>-city-\<close> in that order
  and then always \<open>-session-{sessionId}\<close>; for \<open>gate.provider.com\<close> with country \<open>us\<close>, state
  \<open>texas\<close> and no city this is \<open>{username}-country-us-state-texas-session-{sessionId}\<close>.
\<close>

theorem proxy_username_routing:
  "enabled cfg \<longrightarrow>
     (isSubdomainRouting (decodServer cfg) \<longrightarrow> proxyUsername cfg sid = Some (username cfg)) \<and>
     (\<not> isSubdomainRouting (decodServer cfg) \<longrightarrow>
        proxyUsername cfg sid = Some (username cfg @ location_suffix cfg @ ''-session-'' @ sid)) \<and>
     (decodServer cfg = ''gate.provider.com'' \<and> country cfg = ''us'' \<and> state cfg = ''texas''
        \<and> city cfg = [] \<longrightarrow>
        proxyUsername cfg sid = Some (username cfg @ ''-country-us-state-texas-session-'' @ sid))"
proof (intro impI conjI)
  assume "enabled cfg" and "isSubdomainRouting (decodServer cfg)"
  then show "proxyUsername cfg sid = Some (username cfg)"
    by (simp add: proxyUsername_def)
next
  assume "enabled cfg" and "\<not> isSubdomainRouting (decodServer cfg)"
  then show "proxyUsername cfg sid = Some (username cfg @ location_suffix cfg @ ''-session-'' @ sid)"
    by (simp add: proxyUsername_def locationPart_suffix)
next
  assume en: "enabled cfg"
    and g: "decodServer cfg = ''gate.provider.com'' \<and> country cfg = ''us'' \<and> state cfg = ''texas''
        \<and> city cfg = []"
  have "\<not> isSubdomainRouting ''gate.provider.com''"
    by (simp add: isSubdomainRouting_def string_eval)
  with en g show "proxyUsername cfg sid = Some (username cfg @ ''-country-us-state-texas-session-'' @ sid)"
    by (simp add: proxyUsername_def locationPart_def)
qed

theorem proxy_username_routing_witness:
  "enabled \<lparr>enabled = True, decodServer = ''us.decodo.com:10001'', username = ''user1'',
      password = ''pw'', country = ''us'', state = ''texas'', city = []\<rparr> \<and>
   isSubdomainRouting ''us.decodo.com:10001'' \<and>
   proxyUsername \<lparr>enabled = True, decodServer = ''us.decodo.com:10001'', username = ''user1'',
      password = ''pw'', country = ''us'', state = ''texas'', city = []\<rparr> ''s1'' = Some ''user1'' \<and>
   \<not> isSubdomainRouting ''gate.provider.com'' \<and>
   proxyUsername \<lparr>enabled = True, decodServer = ''gate.provider.com'', username = ''user1'',
      password = ''pw'', country = ''us'', state = ''texas'', city = []\<rparr> ''s1''
     = Some ''user1-country-us-state-texas-session-s1''"
  using proxy_username_routing [of "\<lparr>enabled = True, decodServer = ''us.decodo.com:10001'',
      username = ''user1'', password = ''pw'', country = ''us'', state = ''texas'', city = []\<rparr>" "''s1''"]
    proxy_username_routing [of "\<lparr>enabled = True, decodServer = ''gate.provider.com'',
      username = ''user1'', password = ''pw'', country = ''us'', state = ''texas'', city = []\<rparr>" "''s1''"]
  by (simp add: isSubdomainRouting_def location_suffix_def string_eval)

subsection \<open>Substrings\<close>





subsection \<open>Field purpose\<close>





subsection \<open>Value lookup\<close>

lemma fuzzy_loop_find:
  "fuzzy_loop k fd =
     (case find (\<lambda>(key, v). str_includes (toLowerCase k) (toLowerCase key)) fd of
        Some (key, v) \<Rightarrow> v | None \<Rightarrow> JNull)"
  by (induction k fd rule: fuzzy_loop.induct) auto

text \<open>
  C2 (as stated, refuted): a field named \<open>constructor\<close> with id \<open>email\<close>, and form data whose
  only key is \<open>email\<close>: no key matches the name and the id matches exactly, yet the lookup by
  name answers with the inherited \<open>Object.prototype.constructor\<close>, which is the value of no
  key of the form data.
\<close>

theorem getValueForField_inherited_counterexample:
  "exact_match (f_name (text_input ''constructor'' ''email'')) [(''email'', JStr ''a@b.c'')] = None \<and>
   exact_match (f_id (text_input ''constructor'' ''email'')) [(''email'', JStr ''a@b.c'')]
     = Some (JStr ''a@b.c'') \<and>
   getValueForField (text_input ''constructor'' ''email'') [(''email'', JStr ''a@b.c'')]
     = JInherited ''constructor'' \<and>
   getValueForField (text_input ''constructor'' ''email'') [(''email'', JStr ''a@b.c'')]
     \<noteq> JStr ''a@b.c''"
  by (simp add: text_input_def exact_match_def getValueForField_def get_property_def
      object_prototype_names_def)

text \<open>
  C2 (amended): \<open>getValueForField\<close> looks up in the tier order (1) exact \<open>field.name\<close>, (2)
  exact \<open>field.id\<close>, (3) exact \<open>field.purpose\<close>, (4) the first key of the form data, in
  iteration order, that the field's name-or-id contains case-insensitively. An exact name
  match is always returned. A later tier decides when the names tried before it match no key
  and are not names of properties inherited from \<open>Object.prototype\<close>: then an exact id match is
  returned whatever the purpose and fuzzy tiers would give, and so on down the tiers.
\<close>

theorem getValueForField_tiers:
  "(exact_match (f_name fld) fd = Some v \<longrightarrow> getValueForField fld fd = v) \<and>
   (exact_match (f_name fld) fd = None \<and> f_name fld \<notin> set object_prototype_names \<and>
    exact_match (f_id fld) fd = Some v \<longrightarrow> getValueForField fld fd = v) \<and>
   (exact_match (f_name fld) fd = None \<and> f_name fld \<notin> set object_prototype_names \<and>
    exact_match (f_id fld) fd = None \<and> f_id fld \<notin> set object_prototype_names \<and>
    exact_match (f_purpose fld) fd = Some v \<longrightarrow> getValueForField fld fd = v) \<and>
   (exact_match (f_name fld) fd = None \<and> f_name fld \<notin> set object_prototype_names \<and>
    exact_match (f_id fld) fd = None \<and> f_id fld \<notin> set object_prototype_names \<and>
    exact_match (f_purpose fld) fd = None \<and> f_purpose fld \<notin> set object_prototype_names \<longrightarrow>
      getValueForField fld fd =
        (case fuzzy_match fld fd of Some (key, w) \<Rightarrow> w | None \<Rightarrow> JNull))"
  by (auto simp: getValueForField_def get_property_def exact_match_def fuzzy_match_def
      name_or_id_def fuzzy_loop_find split: if_splits)

theorem getValueForField_tiers_witness:
  "exact_match ''user_mail'' [(''email'', JStr ''purpose''), (''ma'', JStr ''fuzzy''),
      (''mail'', JStr ''id'')] = None \<and>
   ''user_mail'' \<notin> set object_prototype_names \<and>
   exact_match ''mail'' [(''email'', JStr ''purpose''), (''ma'', JStr ''fuzzy''),
      (''mail'', JStr ''id'')] = Some (JStr ''id'') \<and>
   exact_match ''email'' [(''email'', JStr ''purpose''), (''ma'', JStr ''fuzzy''),
      (''mail'', JStr ''id'')] = Some (JStr ''purpose'') \<and>
   fuzzy_match (text_input ''user_mail'' ''mail'')
      [(''email'', JStr ''purpose''), (''ma'', JStr ''fuzzy''), (''mail'', JStr ''id'')]
     = Some (''ma'', JStr ''fuzzy'') \<and>
   getValueForField (text_input ''user_mail'' ''mail'')
      [(''email'', JStr ''purpose''), (''ma'', JStr ''fuzzy''), (''mail'', JStr ''id'')]
     = JStr ''id''"
  using getValueForField_tiers [of "text_input ''user_mail'' ''mail''"
      "[(''email'', JStr ''purpose''), (''ma'', JStr ''fuzzy''), (''mail'', JStr ''id'')]"
      "JStr ''id''"]
  by (simp add: text_input_def exact_match_def fuzzy_match_def name_or_id_def
      object_prototype_names_def string_eval)

subsection \<open>Submission verification\<close>

lemma generic_detection_checks:
  "generic_detection lc =
     (case find fst (map (\<lambda>keyword. (str_includes lc keyword,
              result True (Some ''keyword'') (Some (''Found keyword: '' @ keyword))))
         successKeywords
       @ map (\<lambda>keyword. (str_includes lc keyword,
              result False (Some ''error'') (Some (''Found error keyword: '' @ keyword))))
         errorKeywords) of
        Some (matched, r) \<Rightarrow> r
      | None \<Rightarrow> result False None (Some ''Unable to determine submission status''))"
  by (simp add: generic_detection_def successKeywords_def errorKeywords_def)

lemma first_matching_check_unfold:
  "first_matching_check url content n ind =
     (if successUrl ind \<noteq> [] \<and> str_includes url (successUrl ind)
      then result True (Some ''url'') (Some (''URL changed to '' @ url))
      else if successMessage ind \<noteq> [] \<and> str_includes content (successMessage ind)
      then result True (Some ''message'') (Some ''Success message found'')
      else if successSelector ind \<noteq> [] \<and> n > 0
      then result True (Some ''element'') (Some ''Success element found'')
      else generic_detection (toLowerCase content))"
  unfolding generic_detection_checks first_matching_check_def verification_checks_def
  by simp

lemma verifySubmission_unfold:
  assumes "page_content pg = Inr content"
    and "successSelector ind \<noteq> [] \<longrightarrow> page_count pg (successSelector ind) = Inr n"
  shows "verifySubmission pg ind =
     (if successUrl ind \<noteq> [] \<and> str_includes (page_url pg) (successUrl ind)
      then result True (Some ''url'') (Some (''URL changed to '' @ page_url pg))
      else if successMessage ind \<noteq> [] \<and> str_includes content (successMessage ind)
      then result True (Some ''message'') (Some ''Success message found'')
      else if successSelector ind \<noteq> [] \<and> n > 0
      then result True (Some ''element'') (Some ''Success element found'')
      else generic_detection (toLowerCase content))"
  unfolding verifySubmission_def verifySubmission_try_def
  using assms by (cases "successSelector ind = []") simp_all


lemma generic_detection_success:
  assumes "\<exists>k \<in> set successKeywords. str_includes lc k"
  shows "v_success (generic_detection lc)"
proof (cases "find (\<lambda>keyword. str_includes lc keyword) successKeywords")
  case None
  with assms show ?thesis by (simp add: find_None_iff)
next
  case (Some k)
  then show ?thesis by (simp add: generic_detection_def result_def)
qed

text \<open>
  C5 (as stated, refuted): a configured selector whose count rejects leaves the \<open>try\<close> block
  before the keyword checks. The page below contains the success keyword \<open>thank you\<close> and no
  error keyword, and no configured check matches, yet the result is a failure with method
  \<open>error\<close> and the message of the rejection.
\<close>

theorem verifySubmission_rejected_selector_counterexample:
  "str_includes (toLowerCase ''<p>Thank you</p>'') ''thank you'' \<and>
   verifySubmission
     \<lparr>page_url = ''https://shop.test/form'', page_content = Inr ''<p>Thank you</p>'',
      page_text = Inr ''Thank you'',
      page_count = (\<lambda>sel. if sel = ''div['' then Inl (Error ''bad selector'') else Inr 0)\<rparr>
     \<lparr>successUrl = [], successMessage = [], successSelector = ''div[''\<rparr>
   = result False (Some ''error'') (Some ''bad selector'')"
  by (simp add: verifySubmission_def verifySubmission_try_def string_eval)

text \<open>
  C5 (amended): when the page answers the reads (the content, and the count of the success
  selector when one is configured), \<open>verifySubmission\<close> returns the result of the first check that matches in the order
  success URL, success message, success selector, generic success keywords, generic error
  keywords; a content with a success keyword reports success whatever error keywords it has;
  and when no check matches the result is \<open>{success: false, method: null}\<close> with the message
  \<open>Unable to determine submission status\<close>.
\<close>

theorem verifySubmission_cascade:
  assumes "page_content pg = Inr content"
    and "successSelector ind \<noteq> [] \<longrightarrow> page_count pg (successSelector ind) = Inr n"
  shows "verifySubmission pg ind = first_matching_check (page_url pg) content n ind \<and>
     ((\<exists>k \<in> set successKeywords. str_includes (toLowerCase content) k)
           \<longrightarrow> v_success (verifySubmission pg ind)) \<and>
     (find fst (verification_checks (page_url pg) content n ind) = None
           \<longrightarrow> verifySubmission pg ind =
                 result False None (Some ''Unable to determine submission status''))"
proof (intro conjI impI)
  show eq: "verifySubmission pg ind = first_matching_check (page_url pg) content n ind"
    unfolding verifySubmission_unfold [OF assms] first_matching_check_unfold ..
  show "v_success (verifySubmission pg ind)"
    if "\<exists>k \<in> set successKeywords. str_includes (toLowerCase content) k"
    unfolding verifySubmission_unfold [OF assms]
    using generic_detection_success [OF that] by (simp add: result_def)
  show "verifySubmission pg ind = result False None (Some ''Unable to determine submission status'')"
    if "find fst (verification_checks (page_url pg) content n ind) = None"
    unfolding eq using that by (simp add: first_matching_check_def)
qed

theorem verifySubmission_cascade_witness:
  "page_content \<lparr>page_url = ''https://shop.test/form'',
      page_content = Inr ''<p>No error, Success</p>'', page_text = Inr ''No error, Success'',
      page_count = (\<lambda>sel. Inr 0)\<rparr> = Inr ''<p>No error, Success</p>'' \<and>
   page_count \<lparr>page_url = ''https://shop.test/form'',
      page_content = Inr ''<p>No error, Success</p>'', page_text = Inr ''No error, Success'',
      page_count = (\<lambda>sel. Inr 0)\<rparr> ''.ok'' = Inr 0 \<and>
   (\<exists>k \<in> set successKeywords. str_includes (toLowerCase ''<p>No error, Success</p>'') k) \<and>
   (\<exists>k \<in> set errorKeywords. str_includes (toLowerCase ''<p>No error, Success</p>'') k) \<and>
   v_success (verifySubmission \<lparr>page_url = ''https://shop.test/form'',
      page_content = Inr ''<p>No error, Success</p>'', page_text = Inr ''No error, Success'',
      page_count = (\<lambda>sel. Inr 0)\<rparr>
     \<lparr>successUrl = ''/thank-you'', successMessage = ''Order placed'', successSelector = ''.ok''\<rparr>)"
  using verifySubmission_cascade [of "\<lparr>page_url = ''https://shop.test/form'',
      page_content = Inr ''<p>No error, Success</p>'', page_text = Inr ''No error, Success'',
      page_count = (\<lambda>sel. Inr 0)\<rparr>" "''<p>No error, Success</p>''"
      "\<lparr>successUrl = ''/thank-you'', successMessage = ''Order placed'',
        successSelector = ''.ok''\<rparr>" 0,
      THEN conjunct2, THEN conjunct1]
  by (simp add: successKeywords_def errorKeywords_def string_eval)

subsection \<open>Checkout verification\<close>

lemma elapsed_at_mono: "j \<le> k \<Longrightarrow> elapsed_at polls j \<le> elapsed_at polls k"
  by (induction k) (auto simp: le_Suc_eq)



lemma elapsed_at_earlier:
  "elapsed_at polls k < maxWaitTime \<Longrightarrow> \<forall>j<k. elapsed_at polls j < maxWaitTime"
  using elapsed_at_mono [of _ k polls] by (meson le_less_trans less_imp_le)

lemma verify_loop_advance:
  assumes "\<forall>j<k. quiet (p_page (polls j))" and "\<forall>j<k. elapsed_at polls j < maxWaitTime"
  shows "verify_loop polls 0 0 = verify_loop polls k (elapsed_at polls k)"
  using assms
proof (induction k)
  case 0
  then show ?case by simp
next
  case (Suc k)
  then have "verify_loop polls 0 0 = verify_loop polls k (elapsed_at polls k)" by simp
  also have "\<dots> = verify_loop polls (Suc k) (elapsed_at polls (Suc k))"
    using Suc.prems by (subst verify_loop.simps) (simp add: quiet_def)
  finally show ?case .
qed




lemma verify_loop_success:
  assumes "\<forall>j<k. quiet (p_page (polls j))" and "elapsed_at polls k < maxWaitTime"
    and "success_detected (p_page (polls k))"
  shows "verify_loop polls 0 0 =
     (\<lparr>v_success = True, v_method = Some ''cartpanda_success_detection'',
       v_message = Some ''Checkout completed successfully'',
       v_url = Some (page_url (p_page (polls k))),
       v_orderNumber = extractOrderNumber (p_reread (polls k))\<rparr>,
      elapsed_at polls k + p_read_ms (polls k) + p_extract_ms (polls k))"
proof -
  have "verify_loop polls 0 0 = verify_loop polls k (elapsed_at polls k)"
    using assms elapsed_at_earlier by (simp add: verify_loop_advance)
  also have "\<dots> = (\<lparr>v_success = True, v_method = Some ''cartpanda_success_detection'',
       v_message = Some ''Checkout completed successfully'',
       v_url = Some (page_url (p_page (polls k))),
       v_orderNumber = extractOrderNumber (p_reread (polls k))\<rparr>,
      elapsed_at polls k + p_read_ms (polls k) + p_extract_ms (polls k))"
    using assms by (subst verify_loop.simps) simp
  finally show ?thesis .
qed



lemmas checkout_eval =
  quiet_def success_detected_def error_detected_def some_def pageText_of_def
  checkout_successIndicators_def checkout_errorIndicators_def maxWaitTime_def
  shows_success_phrase_def success_phrases_def steady_def
  blank_page_def declined_page_def thanks_with_error_page_def declined_with_return_url_page_def




text \<open>
  C10: within one iteration the success indicators are evaluated first: if iteration \<open>k\<close>
  begins within the budget (no earlier iteration matched anything) and a success indicator
  holds for its URL or text, the loop returns
  \<open>{success: true, method: cartpanda_success_detection}\<close> in that iteration, with the URL of
  that iteration and the order number of its second read, whether or not the text also
  contains an error word.
\<close>

theorem verifyCheckoutSuccess_success_first:
  "(\<forall>j<k. quiet (p_page (polls j))) \<and> elapsed_at polls k < maxWaitTime \<and>
   success_detected (p_page (polls k)) \<longrightarrow>
     verifyCheckoutSuccess polls =
       \<lparr>v_success = True, v_method = Some ''cartpanda_success_detection'',
        v_message = Some ''Checkout completed successfully'',
        v_url = Some (page_url (p_page (polls k))),
        v_orderNumber = extractOrderNumber (p_reread (polls k))\<rparr>"
proof (intro impI)
  assume "(\<forall>j<k. quiet (p_page (polls j))) \<and> elapsed_at polls k < maxWaitTime \<and>
   success_detected (p_page (polls k))"
  then have "verify_loop polls 0 0 =
     (\<lparr>v_success = True, v_method = Some ''cartpanda_success_detection'',
       v_message = Some ''Checkout completed successfully'',
       v_url = Some (page_url (p_page (polls k))),
       v_orderNumber = extractOrderNumber (p_reread (polls k))\<rparr>,
      elapsed_at polls k + p_read_ms (polls k) + p_extract_ms (polls k))"
    by (simp add: verify_loop_success)
  then show "verifyCheckoutSuccess polls =
       \<lparr>v_success = True, v_method = Some ''cartpanda_success_detection'',
        v_message = Some ''Checkout completed successfully'',
        v_url = Some (page_url (p_page (polls k))),
        v_orderNumber = extractOrderNumber (p_reread (polls k))\<rparr>"
    by (simp add: verifyCheckoutSuccess_def)
qed

theorem verifyCheckoutSuccess_success_first_witness:
  "quiet blank_page \<and>
   elapsed_at (\<lambda>i. if i = 1 then steady thanks_with_error_page 150 else steady blank_page 150) 1
     < maxWaitTime \<and>
   success_detected thanks_with_error_page \<and> error_detected thanks_with_error_page \<and>
   verifyCheckoutSuccess
       (\<lambda>i. if i = 1 then steady thanks_with_error_page 150 else steady blank_page 150)
     = \<lparr>v_success = True, v_method = Some ''cartpanda_success_detection'',
        v_message = Some ''Checkout completed successfully'',
        v_url = Some ''https://shop.test/checkout'', v_orderNumber = Some ''A-17''\<rparr>"
proof -
  let ?polls = "\<lambda>i::nat. if i = 1 then steady thanks_with_error_page 150 else steady blank_page 150"
  have q: "\<forall>j<1. quiet (p_page (?polls j))"
    by (simp add: checkout_eval)
  have e: "elapsed_at ?polls 1 = 3150"
    by (simp add: steady_def)
  have d: "success_detected thanks_with_error_page \<and> error_detected thanks_with_error_page"
    by (simp add: checkout_eval)
  have o: "extractOrderNumber (page_text thanks_with_error_page) = Some ''A-17''"
    by (simp add: extractOrderNumber_def thanks_with_error_page_def order_labels_def
        is_separator_def is_space_def is_order_char_def string_eval)
  have u: "page_url thanks_with_error_page = ''https://shop.test/checkout''"
    by (simp add: thanks_with_error_page_def)
  have p: "p_page (?polls 1) = thanks_with_error_page"
      "p_reread (?polls 1) = page_text thanks_with_error_page"
    by (simp_all add: steady_def)
  have qb: "quiet blank_page" by (simp add: checkout_eval)
  show ?thesis
    using verifyCheckoutSuccess_success_first [where k = 1 and polls = ?polls]
      q e d o u p qb by (simp add: maxWaitTime_def)
qed

subsection \<open>Mouse path\<close>









subsection \<open>Profile store\<close>

lemma split_slash_name: "CHR ''/'' \<notin> set s \<Longrightarrow> split_slash s = [s]"
  by (induction s) auto

lemma path_join_name: "is_name n \<Longrightarrow> path_join d n = d @ [n]"
  by (simp add: path_join_def is_name_def split_slash_name norm_step_def)

lemma prefixes_snoc_butlast: "butlast (prefixes (d @ [n])) = prefixes d"
  by simp

lemma has_nul_snoc: "has_nul (d @ [n]) \<longleftrightarrow> has_nul d \<or> CHR 0x00 \<in> set n"
  by (auto simp: has_nul_def list_ex_iff)

lemma existsSync_child:
  "existsSync fs (d @ [n]) \<longleftrightarrow>
     \<not> has_nul d \<and> CHR 0x00 \<notin> set n \<and> list_all (\<lambda>q. fs q = Some Dir) (prefixes d)
       \<and> fs (d @ [n]) \<noteq> None"
  by (auto simp: existsSync_def prefixes_snoc_butlast has_nul_snoc)

lemma all_prefixes_existsSync:
  "\<not> has_nul d \<Longrightarrow> list_all (\<lambda>q. fs q = Some Dir) (prefixes d) \<Longrightarrow>
     existsSync fs d \<and> fs d = Some Dir"
proof -
  assume n: "\<not> has_nul d" and a: "list_all (\<lambda>q. fs q = Some Dir) (prefixes d)"
  have "d \<in> set (prefixes d)" by simp
  with a have d: "fs d = Some Dir" by (auto simp: list_all_iff simp del: in_set_prefixes)
  have "set (butlast (prefixes d)) \<subseteq> set (prefixes d)" by (meson in_set_butlastD subsetI)
  with a have "list_all (\<lambda>q. fs q = Some Dir) (butlast (prefixes d))"
    by (auto simp: list_all_iff simp del: in_set_prefixes)
  with n d show ?thesis by (simp add: existsSync_def)
qed

lemma listed_iff:
  "listed d fs n \<longleftrightarrow> existsSync fs d \<and> fs d \<noteq> Some File \<and> is_name n \<and> fs (d @ [n]) = Some Dir"
  by (auto simp: listed_def listProfiles_def readdirSync_def)


lemma existsSync_prefixes:
  assumes "existsSync fs d" and "fs d \<noteq> Some File"
  shows "list_all (\<lambda>q. fs q = Some Dir) (prefixes d)"
proof -
  from assms have d: "fs d = Some Dir"
    by (cases "fs d") (auto simp: existsSync_def intro: node.exhaust)
  have "prefixes d = butlast (prefixes d) @ [d]"
    by (metis append_butlast_last_id last_prefixes prefixes_not_Nil)
  then have "list_all (\<lambda>q. fs q = Some Dir) (prefixes d) \<longleftrightarrow>
      list_all (\<lambda>q. fs q = Some Dir) (butlast (prefixes d) @ [d])" by simp
  with assms(1) d show ?thesis by (simp add: existsSync_def)
qed

lemma getProfilePath_listed:
  assumes n: "is_name n" and f: "fs (d @ [n]) \<noteq> Some File"
    and g: "getProfilePath d fs n ok = Inr (p, fs1)"
  shows "listed d fs1 n"
proof (cases "existsSync fs (d @ [n])")
  case True
  with g n have "fs1 = fs" by (simp add: getProfilePath_def path_join_name Let_def)
  moreover from True have "\<not> has_nul d" "list_all (\<lambda>q. fs q = Some Dir) (prefixes d)"
      "fs (d @ [n]) \<noteq> None"
    by (simp_all add: existsSync_child)
  moreover from this f have "fs (d @ [n]) = Some Dir"
    by (cases "fs (d @ [n])") (auto intro: node.exhaust)
  ultimately show ?thesis
    using n all_prefixes_existsSync [of d fs] by (simp add: listed_iff)
next
  case False
  with g n have m: "mkdirSync fs (d @ [n]) ok = Inr fs1"
    by (auto simp: getProfilePath_def path_join_name Let_def split: sum.splits)
  then have nn: "\<not> has_nul (d @ [n])" and fs1: "fs1 = (\<lambda>q. if prefix q (d @ [n]) then Some Dir else fs q)"
    by (auto simp: mkdirSync_def split: if_splits)
  have "list_all (\<lambda>q. fs1 q = Some Dir) (prefixes d)"
    by (auto simp: fs1 list_all_iff)
  moreover have "fs1 (d @ [n]) = Some Dir" by (simp add: fs1)
  moreover have "\<not> has_nul d" using nn by (simp add: has_nul_snoc)
  ultimately show ?thesis
    using n all_prefixes_existsSync [of d fs1] by (simp add: listed_iff)
qed

lemma deleteProfile_not_listed:
  assumes "deleteProfile d fs n ok = Inr fs2"
  shows "\<not> listed d fs2 n"
proof
  assume l: "listed d fs2 n"
  then have n: "is_name n" and e: "existsSync fs2 d" and nf: "fs2 d \<noteq> Some File"
    and c: "fs2 (d @ [n]) = Some Dir"
    by (simp_all add: listed_iff)
  from e have nn: "\<not> has_nul d" by (simp add: existsSync_def)
  have ex2: "existsSync fs2 (d @ [n])"
    using n nn c existsSync_prefixes [OF e nf]
    by (simp add: existsSync_child is_name_def)
  show False
  proof (cases "existsSync fs (d @ [n])")
    case True
    with assms n have "fs2 = (\<lambda>q. if prefix (d @ [n]) q then None else fs q)"
      by (auto simp: deleteProfile_def path_join_name rmSync_def Let_def split: if_splits)
    then have "fs2 (d @ [n]) = None" by simp
    with c show False by simp
  next
    case False
    with assms n have "fs2 = fs" by (simp add: deleteProfile_def path_join_name Let_def)
    with ex2 False show False by simp
  qed
qed

text \<open>
  C8 (as stated, refuted): for the id \<open>a/b\<close> in an empty profiles directory,
  \<open>getProfilePath\<close> creates the nested directories \<open>a\<close> and \<open>a/b\<close>; the listing that follows
  holds \<open>a\<close> and not the id \<open>a/b\<close>.
\<close>

theorem profile_id_with_slash_counterexample:
  "getProfilePath srv_profiles fresh_fs ''a/b'' True =
     Inr (srv_profiles @ [''a'', ''b''],
          \<lambda>q. if prefix q (srv_profiles @ [''a'', ''b'']) then Some Dir else fresh_fs q) \<and>
   \<not> listed srv_profiles
       (\<lambda>q. if prefix q (srv_profiles @ [''a'', ''b'']) then Some Dir else fresh_fs q) ''a/b'' \<and>
   listed srv_profiles
       (\<lambda>q. if prefix q (srv_profiles @ [''a'', ''b'']) then Some Dir else fresh_fs q) ''a''"
  by (simp add: getProfilePath_def path_join_def norm_step_def existsSync_def mkdirSync_def
      has_nul_def srv_profiles_def fresh_fs_def listed_iff is_name_def Let_def fun_eq_iff)

text \<open>
  C8 (amended): for every id that is the name of a directory entry (not empty, \<open>.\<close> or \<open>..\<close>,
  without \<open>/\<close>) and is not the name of a regular file in the profiles directory, when
  \<open>getProfilePath(id)\<close> returns, the listing that follows includes the id; and for every id,
  when \<open>deleteProfile(id)\<close> returns, the listing that follows does not include the id.
\<close>

theorem profile_round_trip:
  "(is_name accountId \<and> fs (profilesDir @ [accountId]) \<noteq> Some File \<and>
    getProfilePath profilesDir fs accountId ok = Inr (p, fs1)
      \<longrightarrow> listed profilesDir fs1 accountId) \<and>
   (deleteProfile profilesDir fs' accountId ok' = Inr fs2
      \<longrightarrow> \<not> listed profilesDir fs2 accountId)"
  using getProfilePath_listed deleteProfile_not_listed by blast

theorem profile_round_trip_witness:
  "is_name ''acct-1'' \<and> fresh_fs (srv_profiles @ [''acct-1'']) \<noteq> Some File \<and>
   getProfilePath srv_profiles fresh_fs ''acct-1'' True =
     Inr (srv_profiles @ [''acct-1''],
          \<lambda>q. if prefix q (srv_profiles @ [''acct-1'']) then Some Dir else fresh_fs q) \<and>
   listed srv_profiles
     (\<lambda>q. if prefix q (srv_profiles @ [''acct-1'']) then Some Dir else fresh_fs q) ''acct-1'' \<and>
   deleteProfile srv_profiles
     (\<lambda>q. if prefix q (srv_profiles @ [''acct-1'']) then Some Dir else fresh_fs q) ''acct-1'' True =
     Inr (\<lambda>q. if prefix (srv_profiles @ [''acct-1'']) q then None
               else if prefix q (srv_profiles @ [''acct-1'']) then Some Dir else fresh_fs q) \<and>
   \<not> listed srv_profiles
     (\<lambda>q. if prefix (srv_profiles @ [''acct-1'']) q then None
               else if prefix q (srv_profiles @ [''acct-1'']) then Some Dir else fresh_fs q) ''acct-1''"
proof -
  have n: "is_name ''acct-1''" by (simp add: is_name_def)
  have f: "fresh_fs (srv_profiles @ [''acct-1'']) \<noteq> Some File"
    by (simp add: fresh_fs_def srv_profiles_def)
  have g: "getProfilePath srv_profiles fresh_fs ''acct-1'' True =
     Inr (srv_profiles @ [''acct-1''],
          \<lambda>q. if prefix q (srv_profiles @ [''acct-1'']) then Some Dir else fresh_fs q)"
    by (simp add: getProfilePath_def path_join_def norm_step_def existsSync_def mkdirSync_def
        has_nul_def srv_profiles_def fresh_fs_def Let_def fun_eq_iff)
  have d: "deleteProfile srv_profiles
     (\<lambda>q. if prefix q (srv_profiles @ [''acct-1'']) then Some Dir else fresh_fs q) ''acct-1'' True =
     Inr (\<lambda>q. if prefix (srv_profiles @ [''acct-1'']) q then None
               else if prefix q (srv_profiles @ [''acct-1'']) then Some Dir else fresh_fs q)"
    by (simp add: deleteProfile_def path_join_def norm_step_def existsSync_def rmSync_def
        has_nul_def srv_profiles_def fresh_fs_def Let_def fun_eq_iff)
  show ?thesis
    using n f g d
      profile_round_trip [of "''acct-1''" fresh_fs srv_profiles True "srv_profiles @ [''acct-1'']"
        "\<lambda>q. if prefix q (srv_profiles @ [''acct-1'']) then Some Dir else fresh_fs q"
        "\<lambda>q. if prefix q (srv_profiles @ [''acct-1'']) then Some Dir else fresh_fs q" True
        "\<lambda>q. if prefix (srv_profiles @ [''acct-1'']) q then None
               else if prefix q (srv_profiles @ [''acct-1'']) then Some Dir else fresh_fs q"]
    by blast
qed

subsection \<open>The job body\<close>



lemma processJob_try_catch:
  "fst (processJob cfg ev jb st) = fst (try_catch cfg ev jb st)"
  "snd (processJob cfg ev jb st) = finally_block cfg ev jb (snd (try_catch cfg ev jb st))"
  by (simp_all add: processJob_def split: prod.splits)



lemma session_state_attempt [simp]: "session_state (attempt e st) = session_state st"
  by (simp add: session_state_def attempt_def)

lemma session_state_takeScreenshot [simp]:
  "session_state (takeScreenshot cfg ev a n st) = session_state st"
  by (simp add: takeScreenshot_def session_state_def attempt_def Let_def split: sum.splits)





















lemma captcha_loop_first_match:
  assumes "i < length sels" and "page_count pg (sels ! i) = Inr n" and "0 < n"
    and "\<forall>j<i. \<exists>m. page_count pg (sels ! j) = Inr m"
  shows "captcha_loop pg sels = Inr True"
  using assms
proof (induction sels arbitrary: i)
  case Nil
  then show ?case by simp
next
  case (Cons s sels)
  show ?case
  proof (cases i)
    case 0
    with Cons.prems show ?thesis by simp
  next
    case (Suc k)
    with Cons.prems(4) obtain m where m: "page_count pg s = Inr m" by fastforce
    have "\<forall>j<k. \<exists>m. page_count pg (sels ! j) = Inr m"
      using Cons.prems(4) Suc by fastforce
    then have "captcha_loop pg sels = Inr True"
      using Cons.IH [of k] Cons.prems Suc by simp
    with m show ?thesis by simp
  qed
qed

lemma trace_takeScreenshot [simp]:
  "r_trace (takeScreenshot cfg ev a n st) = r_trace st @ [TakeScreenshot a n]"
  by (simp add: takeScreenshot_def attempt_def Let_def split: sum.splits)

lemma addsI:
  assumes "\<And>st. \<exists>es. r_trace (snd (m st)) = r_trace st @ es \<and> list_all P es"
  shows "adds P m"
  using assms by (simp add: adds_def)

lemma adds_trace:
  assumes "adds P m" and "m st = (r, st')"
  obtains es where "r_trace st' = r_trace st @ es" and "list_all P es"
  using assms unfolding adds_def by (metis snd_conv)

lemma adds_and_then:
  assumes m: "adds P m" and f: "\<And>x. adds P (f x)"
  shows "adds P (and_then m f)"
proof (rule addsI)
  fix st
  obtain r st' where r: "m st = (r, st')" by (cases "m st")
  obtain es where es: "r_trace st' = r_trace st @ es" "list_all P es"
    using m r by (rule adds_trace)
  show "\<exists>es. r_trace (snd (and_then m f st)) = r_trace st @ es \<and> list_all P es"
  proof (cases r)
    case (Inl e)
    with r es show ?thesis by (auto simp: and_then_def)
  next
    case (Inr x)
    obtain r2 st2 where r2: "f x st' = (r2, st2)" by (cases "f x st'")
    obtain es2 where es2: "r_trace st2 = r_trace st' @ es2" "list_all P es2"
      using f r2 by (rule adds_trace)
    have "r_trace (snd (and_then m f st)) = r_trace st @ (es @ es2)"
      using r Inr r2 es es2 by (simp add: and_then_def)
    moreover have "list_all P (es @ es2)" using es es2 by simp
    ultimately show ?thesis by blast
  qed
qed

lemma adds_returns: "adds P (returns a)"
  by (rule addsI) (simp add: returns_def)

lemma adds_throws: "adds P (throws e)"
  by (rule addsI) (simp add: throws_def)

lemma adds_after_attempt:
  assumes "P e" and "adds P m"
  shows "adds P (\<lambda>s. m (attempt e s))"
proof (rule addsI)
  fix st
  obtain r st' where r: "m (attempt e st) = (r, st')" by (cases "m (attempt e st)")
  obtain es where "r_trace st' = r_trace (attempt e st) @ es" "list_all P es"
    using assms(2) r by (rule adds_trace)
  then have "r_trace (snd (m (attempt e st))) = r_trace st @ (e # es) \<and> list_all P (e # es)"
    using r assms(1) by (simp add: attempt_def)
  then show "\<exists>es. r_trace (snd (m (attempt e st))) = r_trace st @ es \<and> list_all P es"
    by blast
qed

lemma adds_awaited: "adds P (awaited outcome)"
  by (rule addsI) (simp add: awaited_def split: option.splits)

lemma adds_updateProgress: "P (UpdateProgress n) \<Longrightarrow> adds P (updateProgress ev n)"
  unfolding updateProgress_def by (rule adds_after_attempt [OF _ adds_awaited])

lemma adds_goto_step: "P (Goto (j_targetUrl jb)) \<Longrightarrow> adds P (goto_step ev jb)"
  unfolding goto_step_def by (rule adds_after_attempt [OF _ adds_awaited])

lemma adds_submit_step: "P operation \<Longrightarrow> adds P (submit_step operation ev)"
  unfolding submit_step_def by (rule adds_after_attempt [OF _ adds_awaited])

lemma adds_fill_step: "P operation \<Longrightarrow> adds P (fill_step operation ev)"
  by (rule addsI) (simp add: fill_step_def attempt_def)

lemma adds_screenshot_step:
  "P (TakeScreenshot (j_sessionId jb) name) \<Longrightarrow> adds P (screenshot_step cfg ev jb name)"
  by (rule addsI) (simp add: screenshot_step_def)

lemma adds_deleteProfile_step:
  "P (DeleteProfile sid) \<Longrightarrow> adds P (deleteProfile_step cfg sid ok)"
  by (rule addsI) (simp add: deleteProfile_step_def attempt_def Let_def split: sum.splits)

lemma adds_launchBrowser:
  "P (LaunchBrowser sid) \<Longrightarrow> P ChromiumLaunch \<Longrightarrow>
   P (NewContext (httpCredentials (cfg_proxy cfg) sid)) \<Longrightarrow> P SetUpPage \<Longrightarrow>
     adds P (launchBrowser cfg ev sid)"
  by (rule addsI)
    (simp add: launchBrowser_def attempt_def Let_def split: sum.splits prod.splits option.splits)

lemmas adds_intros =
  adds_and_then adds_returns adds_throws adds_updateProgress adds_goto_step adds_submit_step
  adds_fill_step adds_screenshot_step adds_deleteProfile_step adds_launchBrowser
  adds_after_attempt

lemma navigate_adds:
  "adds (\<lambda>e. e \<noteq> DetectCaptcha \<and> \<not> fills_or_submits e) (navigate cfg ev jb)"
  unfolding navigate_def by (intro adds_intros) (simp_all add: fills_or_submits_def)

lemma record_result_adds:
  "adds (\<lambda>e. e \<noteq> DetectCaptcha \<and> \<not> fills_or_submits e) (record_result cfg ev jb f v)"
  unfolding record_result_def by (intro adds_intros) (simp_all add: fills_or_submits_def)

lemma start_adds:
  "adds (\<lambda>e. e \<noteq> DetectCaptcha \<and> \<not> fills_or_submits e)
     (and_then (updateProgress ev 10) (\<lambda>u. launchBrowser cfg ev sid))"
  by (intro adds_intros) (simp_all add: fills_or_submits_def)

lemma checkout_path_adds: "adds (\<lambda>e. e \<noteq> DetectCaptcha) (checkout_path cfg ev jb)"
proof (cases "checkIfBlocked (e_page ev)")
  case True
  then have eq: "checkout_path cfg ev jb =
     (\<lambda>s. and_then (screenshot_step cfg ev jb ''blocked'') (\<lambda>u. throws blocked_error)
        (attempt CheckIfBlocked s))"
    by (intro ext) (simp add: checkout_path_def Let_def)
  show ?thesis unfolding eq by (intro adds_intros) simp_all
next
  case False
  then have eq: "checkout_path cfg ev jb =
     (\<lambda>s. and_then (updateProgress ev 40) (\<lambda>u.
           and_then (fill_step FillCheckoutForm ev) (\<lambda>fillResults.
           and_then (updateProgress ev 70) (\<lambda>u.
           and_then (screenshot_step cfg ev jb ''before-submit'') (\<lambda>u.
           and_then (submit_step SubmitCheckout ev) (\<lambda>u.
           and_then (updateProgress ev 85) (\<lambda>u.
           and_then (\<lambda>s. returns (verifyCheckoutSuccess (e_polls ev))
                            (attempt VerifyCheckoutSuccess s)) (\<lambda>verification.
           returns (fillResults, verification)))))))) (attempt CheckIfBlocked s))"
    by (intro ext) (simp add: checkout_path_def Let_def)
  show ?thesis unfolding eq by (intro adds_intros) simp_all
qed


lemma generic_path_captcha:
  assumes "detectCaptcha (e_page ev) = Inr True" and "generic_path cfg ev jb st = (a, b)"
  shows "a = Inl captcha_error"
    and "r_trace b = r_trace st @ DetectCaptcha #
        (if j_takeScreenshots jb then [TakeScreenshot (j_sessionId jb) ''captcha''] else [])"
  using assms
  by (auto simp: generic_path_def and_then_def screenshot_step_def throws_def attempt_def Let_def)

lemma try_catch_captcha:
  assumes c: "detectCaptcha (e_page ev) = Inr True"
    and t: "r_trace st = []"
    and d: "DetectCaptcha \<in> set (r_trace (snd (try_catch cfg ev jb st)))"
  shows "fst (try_catch cfg ev jb st) = Inl captcha_error \<and>
    \<not> list_ex fills_or_submits (r_trace (snd (try_catch cfg ev jb st)))"
proof -
  let ?plain = "\<lambda>e. e \<noteq> DetectCaptcha \<and> \<not> fills_or_submits e"
  obtain r1 st1 where s1:
    "and_then (updateProgress ev 10) (\<lambda>u. launchBrowser cfg ev (j_sessionId jb)) st = (r1, st1)"
    by (cases "and_then (updateProgress ev 10) (\<lambda>u. launchBrowser cfg ev (j_sessionId jb)) st")
  obtain es1 where es1: "r_trace st1 = es1" "list_all ?plain es1"
    using adds_trace [OF start_adds s1] t by auto
  show ?thesis
  proof (cases r1)
    case (Inl e)
    with s1 have "try_catch cfg ev jb st = (Inl e, st1)" by (simp add: try_catch_def)
    with d es1 show ?thesis by (auto simp: list_all_iff)
  next
    case (Inr u)
    obtain r2 st2 where s2: "navigate cfg ev jb st1 = (r2, st2)"
      by (cases "navigate cfg ev jb st1")
    obtain es2 where es2: "r_trace st2 = es1 @ es2" "list_all ?plain es2"
      using adds_trace [OF navigate_adds s2] es1 by auto
    show ?thesis
    proof (cases r2)
      case (Inl e)
      with s1 s2 Inr have "try_catch cfg ev jb st =
          (Inl e, takeScreenshot cfg ev (j_sessionId jb) ''error'' st2)"
        by (simp add: try_catch_def try_after_launch_def and_then_def)
      with d es1 es2 show ?thesis by (auto simp: list_all_iff)
    next
      case u2: (Inr u2)
      show ?thesis
      proof (cases "isCartPanda ev jb")
        case True
        obtain r3 st3 where s3: "checkout_path cfg ev jb st2 = (r3, st3)"
          by (cases "checkout_path cfg ev jb st2")
        obtain es3 where es3: "r_trace st3 = es1 @ es2 @ es3"
            "list_all (\<lambda>e. e \<noteq> DetectCaptcha) es3"
          using adds_trace [OF checkout_path_adds s3] es2 by auto
        show ?thesis
        proof (cases r3)
          case (Inl e)
          with s1 s2 s3 Inr u2 True have "try_catch cfg ev jb st =
              (Inl e, takeScreenshot cfg ev (j_sessionId jb) ''error'' st3)"
            by (simp add: try_catch_def try_after_launch_def and_then_def)
          with d es1 es2 es3 show ?thesis by (auto simp: list_all_iff)
        next
          case fv: (Inr fv)
          obtain f v where fv2: "fv = (f, v)" by (cases fv)
          obtain r4 st4 where s4: "record_result cfg ev jb f v st3 = (r4, st4)"
            by (cases "record_result cfg ev jb f v st3")
          obtain es4 where es4: "r_trace st4 = es1 @ es2 @ es3 @ es4" "list_all ?plain es4"
            using adds_trace [OF record_result_adds s4] es3 by auto
          have "snd (try_catch cfg ev jb st) = st4 \<or>
              snd (try_catch cfg ev jb st) = takeScreenshot cfg ev (j_sessionId jb) ''error'' st4"
            using s1 s2 s3 s4 Inr u2 True fv fv2
            by (cases r4) (simp_all add: try_catch_def try_after_launch_def and_then_def)
          with d es1 es2 es3 es4 show ?thesis by (auto simp: list_all_iff)
        qed
      next
        case False
        obtain r3 st3 where s3: "generic_path cfg ev jb st2 = (r3, st3)"
          by (cases "generic_path cfg ev jb st2")
        note g = generic_path_captcha [OF c s3]
        have tc: "try_catch cfg ev jb st =
            (Inl captcha_error, takeScreenshot cfg ev (j_sessionId jb) ''error'' st3)"
          using s1 s2 s3 Inr u2 False g(1)
          by (simp add: try_catch_def try_after_launch_def and_then_def)
        have "\<not> list_ex fills_or_submits (r_trace (takeScreenshot cfg ev (j_sessionId jb) ''error'' st3))"
          using g(2) es1 es2 by (auto simp: list_ex_iff list_all_iff fills_or_submits_def)
        with tc show ?thesis by simp
      qed
    qed
  qed
qed


lemma trace_closeBrowser:
  "\<exists>es. r_trace (closeBrowser ev a st) = r_trace st @ es \<and> list_all teardown es"
  by (auto simp: closeBrowser_def attempt_def teardown_def Let_def split: option.splits)

lemma trace_finally_block:
  "\<exists>es. r_trace (finally_block cfg ev jb st) = r_trace st @ es \<and> list_all teardown es"
proof -
  obtain es where es: "r_trace (closeBrowser ev (j_sessionId jb) st) = r_trace st @ es"
      "list_all teardown es"
    using trace_closeBrowser by blast
  show ?thesis
    using es
    by (auto simp: finally_block_def deleteProfile_step_def attempt_def teardown_def Let_def
        split: sum.splits)
qed

lemma in_finally_trace:
  "\<not> teardown e \<Longrightarrow>
     e \<in> set (r_trace (finally_block cfg ev jb st)) \<longleftrightarrow> e \<in> set (r_trace st)"
  using trace_finally_block [of cfg ev jb st] by (auto simp: list_all_iff)

lemmas run_eval =
  processJob_def try_catch_def try_after_launch_def navigate_def record_result_def
  generic_path_def checkout_path_def finally_block_def closeBrowser_def
  and_then_def updateProgress_def awaited_def goto_step_def fill_step_def submit_step_def
  launchBrowser_def deleteProfile_step_def attempt_def returns_def throws_def
  screenshot_step_def isCartPanda_def takeScreenshot_def writeFile_def
  getProfilePath_def deleteProfile_def path_join_def norm_step_def existsSync_def
  mkdirSync_def rmSync_def has_nul_def Let_def
  cfg0_def job0_def start_run_def calm_env_def captcha_env_def goto_fails_env_def
  close_fails_env_def newContext_fails_env_def navigating_captcha_env_def
  navigating_captcha_page_def probed_captcha_env_def captcha_page_def srv_profiles_def
  fresh_fs_def




text \<open>
  C6 (as stated, refuted): the page has two elements matching \<open>.g-recaptcha\<close> and the generic
  path runs on it, but the count of the first indicator selector rejects; \<open>detectCaptcha\<close>
  passes that rejection on, and the job body throws it, not the CAPTCHA error.
\<close>

theorem processJob_captcha_count_rejects_counterexample:
  "DetectCaptcha \<in> set (r_trace (snd (processJob cfg0 navigating_captcha_env job0 start_run))) \<and>
   ''.g-recaptcha'' \<in> set captchaIndicators \<and>
   page_count (e_page navigating_captcha_env) ''.g-recaptcha'' = Inr 2 \<and>
   fst (processJob cfg0 navigating_captcha_env job0 start_run)
     = Inl (Error ''Execution context was destroyed'') \<and>
   fst (processJob cfg0 navigating_captcha_env job0 start_run) \<noteq> Inl captcha_error"
  by (simp add: run_eval detectCaptcha_def captchaIndicators_def proxyUsername_def
      httpCredentials_def captcha_error_def)

text \<open>
  C6 (amended): whenever a run of \<open>processJob\<close> reaches the generic path (it calls
  \<open>detectCaptcha\<close>) on a page where some indicator selector has a positive count and the counts
  of the selectors before it in the list resolve, the job body throws the error \<open>CAPTCHA
  detected - manual intervention required\<close>, different from the error of a blocked page, and
  the run attempts no fill and no submit operation; no result, hence no fill result, is
  returned.
\<close>

theorem processJob_captcha_stops:
  "r_trace st = [] \<and> DetectCaptcha \<in> set (r_trace (snd (processJob cfg ev jb st))) \<and>
   i < length captchaIndicators \<and>
   page_count (e_page ev) (captchaIndicators ! i) = Inr n \<and> 0 < n \<and>
   (\<forall>j<i. \<exists>m. page_count (e_page ev) (captchaIndicators ! j) = Inr m) \<longrightarrow>
     fst (processJob cfg ev jb st) = Inl captcha_error \<and>
     captcha_error \<noteq> blocked_error \<and>
     \<not> list_ex fills_or_submits (r_trace (snd (processJob cfg ev jb st)))"
proof (intro impI)
  assume h: "r_trace st = [] \<and> DetectCaptcha \<in> set (r_trace (snd (processJob cfg ev jb st))) \<and>
   i < length captchaIndicators \<and>
   page_count (e_page ev) (captchaIndicators ! i) = Inr n \<and> 0 < n \<and>
   (\<forall>j<i. \<exists>m. page_count (e_page ev) (captchaIndicators ! j) = Inr m)"
  then have c: "detectCaptcha (e_page ev) = Inr True"
    unfolding detectCaptcha_def using captcha_loop_first_match [of i captchaIndicators "e_page ev" n]
    by blast
  have d: "DetectCaptcha \<in> set (r_trace (snd (try_catch cfg ev jb st)))"
    using h by (simp add: processJob_try_catch in_finally_trace teardown_def)
  have tc: "fst (try_catch cfg ev jb st) = Inl captcha_error \<and>
      \<not> list_ex fills_or_submits (r_trace (snd (try_catch cfg ev jb st)))"
    using try_catch_captcha [OF c _ d] h by simp
  have "\<not> fills_or_submits e \<or> \<not> teardown e" for e
    by (auto simp: fills_or_submits_def teardown_def)
  then have "\<not> list_ex fills_or_submits (r_trace (snd (processJob cfg ev jb st)))"
    using tc in_finally_trace [of _ cfg ev jb "snd (try_catch cfg ev jb st)"]
    by (auto simp: processJob_try_catch list_ex_iff)
  moreover have "captcha_error \<noteq> blocked_error"
    by (simp add: captcha_error_def blocked_error_def)
  ultimately show "fst (processJob cfg ev jb st) = Inl captcha_error \<and>
     captcha_error \<noteq> blocked_error \<and>
     \<not> list_ex fills_or_submits (r_trace (snd (processJob cfg ev jb st)))"
    using tc by (simp add: processJob_try_catch)
qed

lemma captcha_run_trace:
  "r_trace (snd (processJob cfg0 captcha_env job0 start_run)) =
     [UpdateProgress 10, LaunchBrowser ''s1'', ChromiumLaunch, NewContext None, SetUpPage,
      UpdateProgress 20, Goto ''https://shop.test/form'', UpdateProgress 30, DetectCaptcha,
      TakeScreenshot ''s1'' ''error'', CloseContext ''s1'', CloseBrowser ''s1'',
      DeleteProfile ''s1'']"
  by (simp add: run_eval detectCaptcha_def captchaIndicators_def proxyUsername_def
      httpCredentials_def)

theorem processJob_captcha_stops_witness:
  "r_trace start_run = [] \<and>
   DetectCaptcha \<in> set (r_trace (snd (processJob cfg0 captcha_env job0 start_run))) \<and>
   (2::nat) < length captchaIndicators \<and>
   captchaIndicators ! 2 = ''.g-recaptcha'' \<and>
   page_count (e_page captcha_env) (captchaIndicators ! 2) = Inr 1 \<and>
   page_count (e_page captcha_env) (captchaIndicators ! 0) = Inr 0 \<and>
   page_count (e_page captcha_env) (captchaIndicators ! 1) = Inr 0 \<and>
   fst (processJob cfg0 captcha_env job0 start_run) = Inl captcha_error \<and>
   \<not> list_ex fills_or_submits (r_trace (snd (processJob cfg0 captcha_env job0 start_run)))"
proof -
  have t: "r_trace start_run = []" by (simp add: start_run_def)
  have d: "DetectCaptcha \<in> set (r_trace (snd (processJob cfg0 captcha_env job0 start_run)))"
    by (simp add: captcha_run_trace)
  have g: "(2::nat) < length captchaIndicators" "captchaIndicators ! 2 = ''.g-recaptcha''"
      "page_count (e_page captcha_env) (captchaIndicators ! 2) = Inr 1"
      "page_count (e_page captcha_env) (captchaIndicators ! 0) = Inr 0"
      "page_count (e_page captcha_env) (captchaIndicators ! 1) = Inr 0"
    by (simp_all add: captcha_env_def captcha_page_def captchaIndicators_def)
  have a: "\<forall>j<2. \<exists>m. page_count (e_page captcha_env) (captchaIndicators ! j) = Inr m"
    by (simp add: captcha_env_def captcha_page_def)
  show ?thesis
    using processJob_captcha_stops [of start_run cfg0 captcha_env job0 2 1] t d g a by simp
qed

text \<open>
  The generic path, and with it \<open>detectCaptcha\<close>, runs only when the URL does not contain
  \<open>cartpanda\<close> and the probe \<open>page.$('#cardNumbercartpanda_stripe')\<close> rejects: its
  \<open>.then(() => true)\<close> maps the \<open>null\<close> of a page without that field to \<open>true\<close>. On the page
  \<open>captcha_page\<close>, with its \<open>.g-recaptcha\<close> element, a probe that resolves sends the job down
  the checkout path: \<open>detectCaptcha\<close> is never called, and the form is filled and submitted.
\<close>

lemma probed_captcha_page_is_filled:
  "r_trace (snd (processJob cfg0 probed_captcha_env job0 start_run)) =
     [UpdateProgress 10, LaunchBrowser ''s1'', ChromiumLaunch, NewContext None, SetUpPage,
      UpdateProgress 20, Goto ''https://shop.test/form'', UpdateProgress 30, CheckIfBlocked,
      UpdateProgress 40, FillCheckoutForm, UpdateProgress 70, SubmitCheckout,
      UpdateProgress 85, VerifyCheckoutSuccess, UpdateProgress 95, UpdateProgress 100,
      DeleteProfile ''s1'', CloseContext ''s1'', CloseBrowser ''s1'', DeleteProfile ''s1'']"
  by (simp add: run_eval checkIfBlocked_def blockMessages_def pageText_of_def proxyUsername_def
      httpCredentials_def string_eval)

end
